theory Spec2Isabelle
  imports Main
begin

section \<open>Strings and numbers of the host language\<close>

text \<open>
  A string of the host language is a sequence of UTF-16 code units, here integers (a code
  unit is one of \<open>0\<close> to \<open>65535\<close>; no property below depends on the bound):
  \<^verbatim>\<open>length\<close>, \<^verbatim>\<open>slice\<close>, \<^verbatim>\<open>startsWith\<close>, \<^verbatim>\<open>includes\<close> and the regular expressions of the source
  all work on code units. \<open>str\<close> turns an ASCII literal into its code units.
\<close>

type_synonym code_unit = int

type_synonym ustring = "code_unit list"

definition str :: "string \<Rightarrow> ustring" where
  "str s = map of_char s"

definition colon :: code_unit where
  "colon = 0x3A"

text \<open>
  White space and line terminators of ECMAScript (tab, line feed, vertical tab, form feed,
  carriage return, space, no-break space, the space separators of Unicode, line and
  paragraph separator, the byte order mark): what \<^verbatim>\<open>String.prototype.trim\<close> strips and
  what \<^verbatim>\<open>\s\<close> matches.
\<close>

definition is_space :: "code_unit \<Rightarrow> bool" where
  "is_space c =
     (c \<in> set [0x09, 0x0A, 0x0B, 0x0C, 0x0D, 0x20, 0xA0, 0x1680, 0x2028, 0x2029, 0x202F,
               0x205F, 0x3000, 0xFEFF]
      \<or> (0x2000 \<le> c \<and> c \<le> 0x200A))"

definition trimStart :: "ustring \<Rightarrow> ustring" where
  "trimStart s = dropWhile is_space s"

definition trimEnd :: "ustring \<Rightarrow> ustring" where
  "trimEnd s = rev (dropWhile is_space (rev s))"

definition trim :: "ustring \<Rightarrow> ustring" where
  "trim s = trimEnd (trimStart s)"

definition startsWith :: "ustring \<Rightarrow> ustring \<Rightarrow> bool" where
  "startsWith s p = (take (length p) s = p)"

text \<open>\<^verbatim>\<open>\d\<close> without the unicode flag: the ASCII digits.\<close>

definition is_digit :: "code_unit \<Rightarrow> bool" where
  "is_digit c = (48 \<le> c \<and> c \<le> 57)"

text \<open>The regular expression \<^verbatim>\<open>/^\d+$/\<close>: one or more ASCII digits and nothing else.\<close>

definition all_digits :: "ustring \<Rightarrow> bool" where
  "all_digits s = (s \<noteq> [] \<and> list_all is_digit s)"

definition digit_val :: "code_unit \<Rightarrow> nat" where
  "digit_val c = nat (c - 48)"

text \<open>
  \<^verbatim>\<open>Number.parseInt(s, 10)\<close> on a string of digits. The source gets a double; here it is the
  exact natural number. The two agree on every comparison the source makes with it
  (against 0, an array length, 1 and 200): a value up to \<^verbatim>\<open>2^53\<close> is exact as a double, and
  a larger one stays larger than any of these bounds (or is \<^verbatim>\<open>Infinity\<close>, which the source
  sends to the same branch).
\<close>

definition parseInt :: "ustring \<Rightarrow> nat" where
  "parseInt s = foldl (\<lambda>n c. 10 * n + digit_val c) 0 s"

definition digit_char :: "nat \<Rightarrow> code_unit" where
  "digit_char d = 48 + int d"

text \<open>The decimal rendering of a natural number, as a template literal prints an index.\<close>

fun decimal :: "nat \<Rightarrow> ustring" where
  "decimal n = (if n < 10 then [digit_char n] else decimal (n div 10) @ [digit_char (n mod 10)])"

declare decimal.simps [simp del]

text \<open>\<^verbatim>\<open>parts.join(sep)\<close>.\<close>

fun join :: "ustring \<Rightarrow> ustring list \<Rightarrow> ustring" where
  "join sep [] = []"
| "join sep [x] = x"
| "join sep (x # y # ys) = x @ sep @ join sep (y # ys)"

text \<open>
  Truthiness of an optional number (\<^verbatim>\<open>!!entry.endedAt\<close>): absent and \<^verbatim>\<open>0\<close> are falsy.
\<close>

definition truthy_num :: "int option \<Rightarrow> bool" where
  "truthy_num x = (case x of None \<Rightarrow> False | Some n \<Rightarrow> n \<noteq> 0)"

text \<open>\<^verbatim>\<open>x ?? d\<close> on an optional value.\<close>

definition nullish :: "'a option \<Rightarrow> 'a \<Rightarrow> 'a" where
  "nullish x d = (case x of None \<Rightarrow> d | Some v \<Rightarrow> v)"

section \<open>Data model\<close>

text \<open>
  The run record of the registry. Its declaration lives in the registry module; the fields
  are the ones this module reads. Timestamps are epoch milliseconds.
\<close>

record RunOutcome =
  status :: ustring
  outcomeError :: "ustring option"

record SubagentRunRecord =
  runId :: ustring
  childSessionKey :: ustring
  requesterSessionKey :: ustring
  label :: "ustring option"
  task :: ustring
  model :: "ustring option"
  createdAt :: int
  startedAt :: "int option"
  endedAt :: "int option"
  outcome :: "RunOutcome option"
  cleanup :: ustring
  archiveAtMs :: "int option"
  cleanupHandled :: bool

record SessionEntry =
  sessionId :: "ustring option"
  sessionFile :: "ustring option"
  inputTokens :: "int option"
  outputTokens :: "int option"
  totalTokens :: "int option"
  abortedLastRun :: bool
  updatedAt :: int

text \<open>\<^verbatim>\<open>type SubagentTargetResolution = { entry?: SubagentRunRecord; error?: string }\<close>\<close>

record SubagentTargetResolution =
  entry :: "SubagentRunRecord option"
  error :: "ustring option"

definition RECENT_WINDOW_MINUTES :: int where
  "RECENT_WINDOW_MINUTES = 30"

section \<open>Collaborators\<close>

text \<open>A value caught by \<^verbatim>\<open>catch (err)\<close>: an \<^verbatim>\<open>Error\<close> object, a string, or anything else.\<close>

datatype thrown = ErrorObject ustring | ThrownString ustring | ThrownOther

datatype ContentBlock = NotAnObject | Block "ustring option" "ustring option"

datatype MessageContent = ContentString ustring | ContentArray "ContentBlock list" | ContentOther

text \<open>
  \<^verbatim>\<open>type ChatMessage = { role?: unknown; content?: unknown; name?: unknown; toolName?: unknown }\<close>;
  a field holds \<open>Some s\<close> when it is the string \<open>s\<close>.
\<close>

record ChatMessage =
  role :: "ustring option"
  content :: MessageContent
  msgName :: "ustring option"
  toolName :: "ustring option"

record AgentParams =
  message :: ustring
  agentSessionKey :: ustring
  idempotencyKey :: ustring
  deliver :: bool
  channel :: ustring
  lane :: ustring

record WaitResponse =
  waitStatus :: "ustring option"
  waitError :: "ustring option"

record ClearResult =
  followupCleared :: nat
  laneCleared :: nat
  keys :: "ustring list"

text \<open>
  The calls that leave this module and change something or reach the backend, in the
  order they are issued. Reads of the registry and of the session store are lookups in the
  environment below.
\<close>

datatype event =
    AbortEmbeddedPiRun ustring
  | ClearSessionQueues "ustring option list"
  | LogVerbose ustring
  | UpdateSessionStore ustring ustring SessionEntry
  | StopSubagentsForRequester ustring
  | MarkSubagentRunForSteerRestart ustring
  | ReplaceSubagentRunAfterSteer ustring ustring SubagentRunRecord
  | GatewayAgent AgentParams int
  | GatewayAgentWait ustring int int
  | GatewayChatHistory ustring nat

text \<open>
  What this module uses and does not define: the clock, the case mapping of the host
  language, the registry, the helpers of \<^verbatim>\<open>subagents-utils\<close> and \<^verbatim>\<open>sessions-helpers\<close>, the
  session store, the queues and the gateway. They are parameters, one value per command
  invocation.
  \<^item> \<open>now\<close> is \<^verbatim>\<open>Date.now()\<close>, read as one instant for the whole command.
  \<^item> \<open>toLowerCase\<close> is \<^verbatim>\<open>String.prototype.toLowerCase\<close>, the lower-case mapping of Unicode.
  \<^item> \<open>formatRunLabel e m\<close> is \<^verbatim>\<open>formatRunLabel(e, { maxLength: m })\<close>, \<open>None\<close> for no options.
  \<^item> \<open>resolveStorePath k\<close> is the store path \<^verbatim>\<open>loadSubagentSessionEntry\<close> derives from the
    child key \<open>k\<close> and the configuration; \<open>loadSessionStore p\<close> is the store at that path.
  \<^item> \<open>updateSessionStore p k e\<close> is the outcome of the awaited write of \<open>e\<close> under key \<open>k\<close>:
    \<open>None\<close> when it resolves, the rejection otherwise.
  \<^item> \<open>callGatewayAgent\<close>, \<open>callGatewayWait\<close> and \<open>callGatewayHistory\<close> are the awaited gateway
    calls; \<open>Inl\<close> is a rejection. The agent response carries \<open>Some r\<close> when its \<^verbatim>\<open>runId\<close>
    is the string \<open>r\<close>; the history response carries \<open>Some ms\<close> when \<^verbatim>\<open>messages\<close> is an array.
  \<^item> \<open>listLineBody recent n e s\<close> is what the template literal of a line of the list verb
    prints after the number, the full stop and the space (label, model, runtime, usage,
    status and task of the run \<open>e\<close> with session entry \<open>s\<close> at the clock \<open>n\<close>), and
    \<open>infoReport\<close> the report of the info verb; both are compositions of display helpers
    whose text no property below depends on.
\<close>

record env =
  now :: int
  toLowerCase :: "ustring \<Rightarrow> ustring"
  listSubagentRunsForRequester :: "ustring \<Rightarrow> SubagentRunRecord list"
  sortSubagentRuns :: "SubagentRunRecord list \<Rightarrow> SubagentRunRecord list"
  formatRunLabel :: "SubagentRunRecord \<Rightarrow> nat option \<Rightarrow> ustring"
  resolveInternalSessionKey :: "ustring \<Rightarrow> ustring"
  resolveStorePath :: "ustring \<Rightarrow> ustring"
  loadSessionStore :: "ustring \<Rightarrow> ustring \<Rightarrow> SessionEntry option"
  updateSessionStore :: "ustring \<Rightarrow> ustring \<Rightarrow> SessionEntry \<Rightarrow> thrown option"
  clearSessionQueues :: "ustring option list \<Rightarrow> ClearResult"
  randomUUID :: ustring
  callGatewayAgent :: "AgentParams \<Rightarrow> thrown + ustring option"
  callGatewayWait :: "ustring \<Rightarrow> thrown + WaitResponse option"
  callGatewayHistory :: "ustring \<Rightarrow> nat \<Rightarrow> thrown + ChatMessage list option"
  stripToolMessages :: "ChatMessage list \<Rightarrow> ChatMessage list"
  extractAssistantText :: "ChatMessage \<Rightarrow> ustring option"
  sanitizeTextContent :: "ustring \<Rightarrow> ustring"
  listLineBody :: "bool \<Rightarrow> int \<Rightarrow> SubagentRunRecord \<Rightarrow> SessionEntry option \<Rightarrow> ustring"
  infoReport :: "int \<Rightarrow> SubagentRunRecord \<Rightarrow> SessionEntry option \<Rightarrow> ustring"
  INTERNAL_MESSAGE_CHANNEL :: ustring
  AGENT_LANE_SUBAGENT :: ustring

section \<open>Target resolver\<close>

text \<open>
  The numeric ordering of \<^verbatim>\<open>resolveSubagentTarget\<close>: the sorted runs with a falsy
  \<^verbatim>\<open>endedAt\<close>, then the sorted runs that ended at or after the cutoff.
\<close>

definition numericOrder :: "env \<Rightarrow> SubagentRunRecord list \<Rightarrow> SubagentRunRecord list" where
  "numericOrder E runs =
     (let sorted = sortSubagentRuns E runs;
          recentCutoff = now E - RECENT_WINDOW_MINUTES * 60000
      in filter (\<lambda>entry. \<not> truthy_num (endedAt entry)) sorted @
         filter (\<lambda>entry. truthy_num (endedAt entry) \<and> nullish (endedAt entry) 0 \<ge> recentCutoff)
           sorted)"

text \<open>\<^verbatim>\<open>xs[i]\<close>: \<^verbatim>\<open>undefined\<close> out of range.\<close>

definition at_index :: "'a list \<Rightarrow> nat \<Rightarrow> 'a option" where
  "at_index xs i = (if i < length xs then Some (xs ! i) else None)"

definition found :: "SubagentRunRecord option \<Rightarrow> SubagentTargetResolution" where
  "found e = \<lparr>entry = e, error = None\<rparr>"

definition failed :: "ustring \<Rightarrow> SubagentTargetResolution" where
  "failed msg = \<lparr>entry = None, error = Some msg\<rparr>"

definition resolveSubagentTarget ::
    "env \<Rightarrow> SubagentRunRecord list \<Rightarrow> ustring option \<Rightarrow> SubagentTargetResolution" where
  "resolveSubagentTarget E runs token =
     (let trimmed = map_option trim token in
      if trimmed = None \<or> trimmed = Some [] then failed (str ''Missing subagent id.'')
      else
        let trimmed = the trimmed in
        if trimmed = str ''last'' then found (at_index (sortSubagentRuns E runs) 0)
        else if all_digits trimmed then
          (let idx = parseInt trimmed in
           if idx \<le> 0 \<or> idx > length (numericOrder E runs)
           then failed (str ''Invalid subagent index: '' @ trimmed)
           else found (at_index (numericOrder E runs) (idx - 1)))
        else if colon \<in> set trimmed then
          (case find (\<lambda>e. childSessionKey e = trimmed) runs of
             Some match \<Rightarrow> found (Some match)
           | None \<Rightarrow> failed (str ''Unknown subagent session: '' @ trimmed))
        else
          let lowered = toLowerCase E trimmed;
              byLabel = filter (\<lambda>e. toLowerCase E (formatRunLabel E e None) = lowered) runs
          in
          if length byLabel = 1 then found (at_index byLabel 0)
          else if length byLabel > 1 then failed (str ''Ambiguous subagent label: '' @ trimmed)
          else
            let byLabelPrefix =
                  filter (\<lambda>e. startsWith (toLowerCase E (formatRunLabel E e None)) lowered) runs
            in
            if length byLabelPrefix = 1 then found (at_index byLabelPrefix 0)
            else if length byLabelPrefix > 1
            then failed (str ''Ambiguous subagent label prefix: '' @ trimmed)
            else
              let byRunId = filter (\<lambda>e. startsWith (runId e) trimmed) runs in
              if length byRunId = 1 then found (at_index byRunId 0)
              else if length byRunId > 1 then failed (str ''Ambiguous run id prefix: '' @ trimmed)
              else failed (str ''Unknown subagent id: '' @ trimmed))"

section \<open>Command handler\<close>

definition COMMAND :: ustring where
  "COMMAND = str ''/subagents''"

definition COMMAND_KILL :: ustring where
  "COMMAND_KILL = str ''/kill''"

definition COMMAND_STEER :: ustring where
  "COMMAND_STEER = str ''/steer''"

definition COMMAND_TELL :: ustring where
  "COMMAND_TELL = str ''/tell''"

definition ACTIONS :: "ustring list" where
  "ACTIONS = [str ''list'', str ''stop'', str ''kill'', str ''log'', str ''send'', str ''steer'', str ''info'', str ''help'']"

text \<open>The pictographs that open some replies, as their UTF-16 code units.\<close>

definition warningSign :: ustring where
  "warningSign = [0x26A0, 0xFE0F]"

definition infoSign :: ustring where
  "infoSign = [0x2139, 0xFE0F]"

definition scrollSign :: ustring where
  "scrollSign = [0xD83D, 0xDCDC]"

definition hourglassSign :: ustring where
  "hourglassSign = [0x23F3]"

definition checkSign :: ustring where
  "checkSign = [0x2705]"

definition newline :: ustring where
  "newline = [0x0A]"

definition buildSubagentsHelp :: ustring where
  "buildSubagentsHelp = join newline
     [str ''Subagents'',
      str ''Usage:'',
      str ''- /subagents list'',
      str ''- /subagents stop <id|#|all>'',
      str ''- /subagents kill <id|#|all>'',
      str ''- /subagents log <id|#> [limit] [tools]'',
      str ''- /subagents info <id|#>'',
      str ''- /subagents send <id|#> <message>'',
      str ''- /subagents steer <id|#> <message>'',
      str ''- /kill <id|#|all>'',
      str ''- /steer <id|#> <message>'',
      str ''- /tell <id|#> <message>'',
      [],
      str ''Ids: use the list index (#), runId/session prefix, label, or full session key.'']"

text \<open>\<^verbatim>\<open>text.replace(/\s+/g, " ")\<close>: the flag says that the previous character was white space.\<close>

fun collapseSpaces :: "bool \<Rightarrow> ustring \<Rightarrow> ustring" where
  "collapseSpaces prev [] = []"
| "collapseSpaces prev (c # cs) =
     (if is_space c then (if prev then collapseSpaces True cs else 0x20 # collapseSpaces True cs)
      else c # collapseSpaces False cs)"

definition normalizeMessageText :: "ustring \<Rightarrow> ustring" where
  "normalizeMessageText text = trim (collapseSpaces False text)"

definition blockChunk :: "env \<Rightarrow> bool \<Rightarrow> ContentBlock \<Rightarrow> ustring list" where
  "blockChunk E shouldSanitize block =
     (case block of
        NotAnObject \<Rightarrow> []
      | Block ty tx \<Rightarrow>
          if ty \<noteq> Some (str ''text'') then []
          else (case tx of
                  None \<Rightarrow> []
                | Some t \<Rightarrow>
                    let v = (if shouldSanitize then sanitizeTextContent E t else t)
                    in if trim v \<noteq> [] then [v] else []))"

definition extractMessageText :: "env \<Rightarrow> ChatMessage \<Rightarrow> (ustring \<times> ustring) option" where
  "extractMessageText E msg =
     (let r = nullish (role msg) [];
          shouldSanitize = (r = str ''assistant'')
      in case content msg of
           ContentString c \<Rightarrow>
             (let normalized =
                    normalizeMessageText (if shouldSanitize then sanitizeTextContent E c else c)
              in if normalized \<noteq> [] then Some (r, normalized) else None)
         | ContentOther \<Rightarrow> None
         | ContentArray blocks \<Rightarrow>
             (let chunks = concat (map (blockChunk E shouldSanitize) blocks);
                  joined = normalizeMessageText (join (str '' '') chunks)
              in if joined \<noteq> [] then Some (r, joined) else None))"

definition formatLogLines :: "env \<Rightarrow> ChatMessage list \<Rightarrow> ustring list" where
  "formatLogLines E messages =
     concat (map (\<lambda>msg. case extractMessageText E msg of
                           None \<Rightarrow> []
                         | Some (r, text) \<Rightarrow>
                             [(if r = str ''assistant'' then str ''Assistant'' else str ''User'') @ str '': '' @ text])
                 messages)"

text \<open>
  \<^verbatim>\<open>loadSubagentSessionEntry\<close>: the store path for the child key and the entry stored under
  the key. The optional cache memoises the read of the store per path; the read is a
  lookup, so the cache does not show in the result.
\<close>

definition loadSubagentSessionEntry :: "env \<Rightarrow> ustring \<Rightarrow> ustring \<times> SessionEntry option" where
  "loadSubagentSessionEntry E childKey =
     (let storePath = resolveStorePath E childKey
      in (storePath, loadSessionStore E storePath childKey))"

record CommandParams =
  commandBodyNormalized :: ustring
  isAuthorizedSender :: bool
  senderId :: "ustring option"
  sessionKey :: "ustring option"
  commandTargetSessionKey :: "ustring option"

record CommandHandlerResult =
  shouldContinue :: bool
  reply :: "ustring option"

text \<open>
  How a run of the handler ends: it returns (\<open>None\<close> is \<^verbatim>\<open>null\<close>, the command is not this
  handler's), or an awaited call rejects and nothing catches it.
\<close>

datatype completion = Returned "CommandHandlerResult option" | Rejected thrown

definition replyText :: "ustring \<Rightarrow> completion" where
  "replyText t = Returned (Some \<lparr>shouldContinue = False, reply = Some t\<rparr>)"

definition noReply :: completion where
  "noReply = Returned (Some \<lparr>shouldContinue = False, reply = None\<rparr>)"

definition truthy_str :: "ustring option \<Rightarrow> bool" where
  "truthy_str x = (case x of None \<Rightarrow> False | Some s \<Rightarrow> s \<noteq> [])"

definition resolveRequesterSessionKey :: "env \<Rightarrow> CommandParams \<Rightarrow> ustring option" where
  "resolveRequesterSessionKey E params =
     (let a = map_option trim (sessionKey params);
          raw = (if truthy_str a then a else map_option trim (commandTargetSessionKey params))
      in if \<not> truthy_str raw then None else Some (resolveInternalSessionKey E (the raw)))"

text \<open>
  \<^verbatim>\<open>rest.split(/\s+/).filter(Boolean)\<close>: the maximal runs of characters that are not white
  space; the first argument is the run being read.
\<close>

fun splitTokens :: "ustring \<Rightarrow> ustring \<Rightarrow> ustring list" where
  "splitTokens cur [] = (if cur = [] then [] else [cur])"
| "splitTokens cur (c # cs) =
     (if is_space c then (if cur = [] then splitTokens [] cs else cur # splitTokens [] cs)
      else splitTokens (cur @ [c]) cs)"

subsection \<open>list\<close>

text \<open>
  The two \<^verbatim>\<open>map\<close> calls of the list verb share the counter \<^verbatim>\<open>index\<close>: each line takes
  the current value and increments it. \<open>mk\<close> is the template of a line; the list verb's is
  \<open>listLineOf\<close>, the number, a full stop, a space and the rest of the line.
\<close>

fun numberLines ::
    "(nat \<Rightarrow> SubagentRunRecord \<Rightarrow> 'l) \<Rightarrow> nat \<Rightarrow> SubagentRunRecord list \<Rightarrow> 'l list \<times> nat" where
  "numberLines mk index [] = ([], index)"
| "numberLines mk index (e # es) =
     (let line = mk index e;
          (rest, index') = numberLines mk (index + 1) es
      in (line # rest, index'))"

definition listNumbered ::
    "(bool \<Rightarrow> nat \<Rightarrow> SubagentRunRecord \<Rightarrow> 'l) \<Rightarrow> env \<Rightarrow> SubagentRunRecord list \<Rightarrow> 'l list \<times> 'l list" where
  "listNumbered mk E runs =
     (let sorted = sortSubagentRuns E runs;
          recentCutoff = now E - RECENT_WINDOW_MINUTES * 60000;
          (activeLines, index) =
            numberLines (mk False) 1 (filter (\<lambda>entry. \<not> truthy_num (endedAt entry)) sorted);
          (recentLines, index') =
            numberLines (mk True) index
              (filter (\<lambda>entry. truthy_num (endedAt entry) \<and> nullish (endedAt entry) 0 \<ge> recentCutoff)
                 sorted)
      in (activeLines, recentLines))"

definition listLineOf :: "env \<Rightarrow> bool \<Rightarrow> nat \<Rightarrow> SubagentRunRecord \<Rightarrow> ustring" where
  "listLineOf E recent index e =
     decimal index @ str ''. ''
     @ listLineBody E recent (now E) e (snd (loadSubagentSessionEntry E (childSessionKey e)))"

definition listAction :: "env \<Rightarrow> SubagentRunRecord list \<Rightarrow> event list \<times> completion" where
  "listAction E runs =
     (let (activeLines, recentLines) = listNumbered (listLineOf E) E runs;
          lines = [str ''active subagents:'']
            @ (if length activeLines = 0 then [str ''(none)''] else activeLines)
            @ [str ''recent (last '' @ decimal (nat RECENT_WINDOW_MINUTES) @ str ''m):'']
            @ (if length recentLines = 0 then [str ''(none)''] else recentLines)
      in ([], replyText (join newline lines)))"

subsection \<open>stop\<close>

definition clearedLog :: "ustring \<Rightarrow> ClearResult \<Rightarrow> event list" where
  "clearedLog verb cleared =
     (if followupCleared cleared > 0 \<or> laneCleared cleared > 0
      then [LogVerbose (str ''subagents '' @ verb @ str '': cleared followups=''
              @ decimal (followupCleared cleared) @ str '' lane='' @ decimal (laneCleared cleared)
              @ str '' keys='' @ join (str '','') (keys cleared))]
      else [])"

definition unresolvedReply :: "SubagentTargetResolution \<Rightarrow> completion" where
  "unresolvedReply resolved =
     replyText (warningSign @ str '' '' @ nullish (error resolved) (str ''Unknown subagent.''))"

definition stopAction ::
    "env \<Rightarrow> ustring \<Rightarrow> ustring \<Rightarrow> SubagentRunRecord list \<Rightarrow> ustring list \<Rightarrow> event list \<times> completion" where
  "stopAction E handledPrefix requesterKey runs restTokens =
     (case restTokens of
        [] \<Rightarrow>
          ([], replyText (if handledPrefix = COMMAND then str ''Usage: /subagents stop <id|#|all>''
                          else str ''Usage: /kill <id|#|all>''))
      | target # _ \<Rightarrow>
          if target = str ''all'' \<or> target = str ''*''
          then ([StopSubagentsForRequester requesterKey], noReply)
          else
            let resolved = resolveSubagentTarget E runs (Some target) in
            (case entry resolved of
              None \<Rightarrow> ([], unresolvedReply resolved)
            | Some run \<Rightarrow>
                if truthy_num (endedAt run)
                then ([], replyText (formatRunLabel E run None @ str '' is already finished.''))
                else
                  let childKey = childSessionKey run;
                      (storePath, sessionEntry) = loadSubagentSessionEntry E childKey;
                      sid = (case sessionEntry of None \<Rightarrow> None | Some se \<Rightarrow> sessionId se);
                      aborted = (if truthy_str sid then [AbortEmbeddedPiRun (the sid)] else []);
                      cleared = clearSessionQueues E [Some childKey, sid];
                      evs = aborted @ [ClearSessionQueues [Some childKey, sid]]
                            @ clearedLog (str ''stop'') cleared
                  in (case sessionEntry of
                       None \<Rightarrow> (evs @ [StopSubagentsForRequester childKey], noReply)
                     | Some se \<Rightarrow>
                         let se' = se\<lparr>abortedLastRun := True, updatedAt := now E\<rparr>;
                             evs' = evs @ [UpdateSessionStore storePath childKey se']
                         in (case updateSessionStore E storePath childKey se' of
                              Some err \<Rightarrow> (evs', Rejected err)
                            | None \<Rightarrow> (evs' @ [StopSubagentsForRequester childKey], noReply)))))"

subsection \<open>info\<close>

definition infoAction ::
    "env \<Rightarrow> SubagentRunRecord list \<Rightarrow> ustring list \<Rightarrow> event list \<times> completion" where
  "infoAction E runs restTokens =
     (case restTokens of
        [] \<Rightarrow> ([], replyText (infoSign @ str '' Usage: /subagents info <id|#>''))
      | target # _ \<Rightarrow>
          let resolved = resolveSubagentTarget E runs (Some target) in
          (case entry resolved of
            None \<Rightarrow> ([], unresolvedReply resolved)
          | Some run \<Rightarrow>
              ([], replyText (infoReport E (now E) run
                     (snd (loadSubagentSessionEntry E (childSessionKey run)))))))"

subsection \<open>log\<close>

definition logLimit :: "ustring list \<Rightarrow> nat" where
  "logLimit restTokens =
     (case find all_digits restTokens of
        Some limitToken \<Rightarrow> min 200 (max 1 (parseInt limitToken))
      | None \<Rightarrow> 20)"

definition logIncludeTools :: "env \<Rightarrow> ustring list \<Rightarrow> bool" where
  "logIncludeTools E restTokens = list_ex (\<lambda>token. toLowerCase E token = str ''tools'') restTokens"

definition logAction ::
    "env \<Rightarrow> SubagentRunRecord list \<Rightarrow> ustring list \<Rightarrow> event list \<times> completion" where
  "logAction E runs restTokens =
     (case restTokens of
        [] \<Rightarrow> ([], replyText (scrollSign @ str '' Usage: /subagents log <id|#> [limit]''))
      | target # _ \<Rightarrow>
          let includeTools = logIncludeTools E restTokens;
              limit = logLimit restTokens;
              resolved = resolveSubagentTarget E runs (Some target)
          in (case entry resolved of
               None \<Rightarrow> ([], unresolvedReply resolved)
             | Some run \<Rightarrow>
                 let call = [GatewayChatHistory (childSessionKey run) limit] in
                 (case callGatewayHistory E (childSessionKey run) limit of
                   Inl err \<Rightarrow> (call, Rejected err)
                 | Inr history \<Rightarrow>
                     let rawMessages = nullish history [];
                         filtered = (if includeTools then rawMessages
                                     else stripToolMessages E rawMessages);
                         lines = formatLogLines E filtered;
                         header = scrollSign @ str '' Subagent log: '' @ formatRunLabel E run None
                     in if length lines = 0
                        then (call, replyText (header @ newline @ str ''(no messages)''))
                        else (call, replyText (join newline (header # lines))))))"

subsection \<open>send and steer\<close>

definition thrownText :: "thrown \<Rightarrow> ustring" where
  "thrownText err =
     (case err of ErrorObject m \<Rightarrow> m | ThrownString s \<Rightarrow> s | ThrownOther \<Rightarrow> str ''error'')"

text \<open>The run id after the dispatch: the response's \<^verbatim>\<open>runId\<close> when it is a truthy string.\<close>

definition dispatchedRunId :: "ustring \<Rightarrow> ustring option \<Rightarrow> ustring" where
  "dispatchedRunId key response = (if truthy_str response then the response else key)"

definition sendAction ::
    "env \<Rightarrow> ustring \<Rightarrow> bool \<Rightarrow> SubagentRunRecord list \<Rightarrow> ustring list \<Rightarrow> event list \<times> completion" where
  "sendAction E handledPrefix steerRequested runs restTokens =
     (let target = (case restTokens of [] \<Rightarrow> None | t # _ \<Rightarrow> Some t);
          msg = trim (join (str '' '') (drop 1 restTokens))
      in
      if target = None \<or> msg = [] then
        ([], replyText
               (if steerRequested
                then (if handledPrefix = COMMAND then str ''Usage: /subagents steer <id|#> <message>''
                      else str ''Usage: '' @ handledPrefix @ str '' <id|#> <message>'')
                else str ''Usage: /subagents send <id|#> <message>''))
      else
        let resolved = resolveSubagentTarget E runs target in
        (case entry resolved of
          None \<Rightarrow> ([], unresolvedReply resolved)
        | Some run \<Rightarrow>
            if truthy_num (endedAt run)
            then ([], replyText (formatRunLabel E run None @ str '' is already finished.''))
            else
              let targetSessionEntry = snd (loadSubagentSessionEntry E (childSessionKey run));
                  sid = (case targetSessionEntry of None \<Rightarrow> None | Some se \<Rightarrow> sessionId se);
                  targetSessionId = (if truthy_str (map_option trim sid)
                                     then map_option trim sid else None);
                  steerEvs =
                    (if steerRequested then
                       [MarkSubagentRunForSteerRestart (runId run)]
                       @ (if truthy_str targetSessionId
                          then [AbortEmbeddedPiRun (the targetSessionId)] else [])
                       @ [ClearSessionQueues [Some (childSessionKey run), targetSessionId]]
                       @ clearedLog (str ''steer'')
                           (clearSessionQueues E [Some (childSessionKey run), targetSessionId])
                     else []);
                  key = randomUUID E;
                  agentParams = \<lparr>message = msg, agentSessionKey = childSessionKey run,
                                 idempotencyKey = key, deliver = False,
                                 channel = INTERNAL_MESSAGE_CHANNEL E,
                                 lane = AGENT_LANE_SUBAGENT E\<rparr>;
                  evs = steerEvs @ [GatewayAgent agentParams 10000]
              in (case callGatewayAgent E agentParams of
                   Inl err \<Rightarrow> (evs, replyText (str ''send failed: '' @ thrownText err))
                 | Inr response \<Rightarrow>
                     let rid = dispatchedRunId key response in
                     if steerRequested then
                       (evs @ [ReplaceSubagentRunAfterSteer (runId run) rid run],
                        replyText (str ''steered '' @ formatRunLabel E run None
                                   @ str '' (run '' @ take 8 rid @ str '').''))
                     else
                       let waitMs = 30000;
                           evs2 = evs @ [GatewayAgentWait rid waitMs (waitMs + 2000)]
                       in (case callGatewayWait E rid of
                            Inl err \<Rightarrow> (evs2, Rejected err)
                          | Inr wait \<Rightarrow>
                              if Option.bind wait waitStatus = Some (str ''timeout'') then
                                (evs2, replyText (hourglassSign @ str '' Subagent still running (run ''
                                                  @ take 8 rid @ str '').''))
                              else if Option.bind wait waitStatus = Some (str ''error'') then
                                (evs2, replyText (warningSign @ str '' Subagent error: ''
                                                  @ nullish (Option.bind wait waitError) (str ''unknown error'')
                                                  @ str '' (run '' @ take 8 rid @ str '').''))
                              else
                                let evs3 = evs2 @ [GatewayChatHistory (childSessionKey run) 50] in
                                (case callGatewayHistory E (childSessionKey run) 50 of
                                  Inl err \<Rightarrow> (evs3, Rejected err)
                                | Inr history \<Rightarrow>
                                    let filtered = stripToolMessages E (nullish history []);
                                        lastMessage = (if length filtered > 0
                                                       then Some (last filtered) else None);
                                        extracted = Option.bind lastMessage (extractAssistantText E)
                                    in (evs3, replyText
                                          (nullish extracted
                                             (checkSign @ str '' Sent to '' @ formatRunLabel E run None
                                              @ str '' (run '' @ take 8 rid @ str '').''))))))))"

subsection \<open>The handler\<close>

definition handledPrefixOf :: "ustring \<Rightarrow> ustring option" where
  "handledPrefixOf normalized =
     (if startsWith normalized COMMAND then Some COMMAND
      else if startsWith normalized COMMAND_KILL then Some COMMAND_KILL
      else if startsWith normalized COMMAND_STEER then Some COMMAND_STEER
      else if startsWith normalized COMMAND_TELL then Some COMMAND_TELL
      else None)"

text \<open>
  The verb, the steer flag and the remaining tokens; \<open>None\<close> when the first token after
  \<^verbatim>\<open>/subagents\<close> is no action (the handler then replies with the help text).
\<close>

definition parseAction ::
    "env \<Rightarrow> ustring \<Rightarrow> ustring list \<Rightarrow> (ustring \<times> bool \<times> ustring list) option" where
  "parseAction E handledPrefix restTokens =
     (let parsed =
            (if handledPrefix = COMMAND then
               (let action = (case restTokens of [] \<Rightarrow> str ''list'' | actionRaw # _ \<Rightarrow> toLowerCase E actionRaw)
                in if action \<notin> set ACTIONS then None else Some (action, False, drop 1 restTokens))
             else if handledPrefix = COMMAND_KILL then Some (str ''kill'', False, restTokens)
             else Some (str ''steer'', True, restTokens))
      in (case parsed of
           None \<Rightarrow> None
         | Some (action, steerRequested, tokens) \<Rightarrow>
             if action = str ''kill'' then Some (str ''stop'', steerRequested, tokens)
             else if action = str ''steer'' then Some (str ''send'', True, tokens)
             else Some (action, steerRequested, tokens)))"

definition runAction ::
    "env \<Rightarrow> CommandParams \<Rightarrow> ustring \<Rightarrow> ustring \<Rightarrow> bool \<Rightarrow> ustring list \<Rightarrow> event list \<times> completion" where
  "runAction E params handledPrefix action steerRequested restTokens =
     (case resolveRequesterSessionKey E params of
        None \<Rightarrow> ([], replyText (warningSign @ str '' Missing session key.''))
      | Some requesterKey \<Rightarrow>
          if requesterKey = [] then ([], replyText (warningSign @ str '' Missing session key.''))
          else
            let runs = listSubagentRunsForRequester E requesterKey in
            if action = str ''help'' then ([], replyText buildSubagentsHelp)
            else if action = str ''list'' then listAction E runs
            else if action = str ''stop'' then stopAction E handledPrefix requesterKey runs restTokens
            else if action = str ''info'' then infoAction E runs restTokens
            else if action = str ''log'' then logAction E runs restTokens
            else if action = str ''send'' then sendAction E handledPrefix steerRequested runs restTokens
            else ([], replyText buildSubagentsHelp))"

definition handleSubagentsCommand :: "env \<Rightarrow> CommandParams \<Rightarrow> bool \<Rightarrow> event list \<times> completion" where
  "handleSubagentsCommand E params allowTextCommands =
     (if \<not> allowTextCommands then ([], Returned None)
      else
        let normalized = commandBodyNormalized params in
        (case handledPrefixOf normalized of
          None \<Rightarrow> ([], Returned None)
        | Some handledPrefix \<Rightarrow>
            if \<not> isAuthorizedSender params then
              ([LogVerbose (str ''Ignoring '' @ handledPrefix @ str '' from unauthorized sender: ''
                            @ (if truthy_str (senderId params) then the (senderId params)
                               else str ''<unknown>''))],
               noReply)
            else
              let rest = trim (drop (length handledPrefix) normalized);
                  restTokens = splitTokens [] rest
              in (case parseAction E handledPrefix restTokens of
                   None \<Rightarrow> ([], replyText buildSubagentsHelp)
                 | Some (action, steerRequested, tokens) \<Rightarrow>
                     runAction E params handledPrefix action steerRequested tokens)))"

section \<open>An environment for the examples\<close>

text \<open>
  The order of the spec's sort (4.1, rule 2): active runs first, a record with no
  \<^verbatim>\<open>endedAt\<close> being active, then the most recent start or creation time first.
\<close>

definition effectiveStart :: "SubagentRunRecord \<Rightarrow> int" where
  "effectiveStart e = nullish (startedAt e) (createdAt e)"

definition runPrecedes :: "SubagentRunRecord \<Rightarrow> SubagentRunRecord \<Rightarrow> bool" where
  "runPrecedes a b =
     ((endedAt a = None \<and> endedAt b \<noteq> None) \<or>
      ((endedAt a = None) = (endedAt b = None) \<and> effectiveStart a > effectiveStart b))"

fun insertRun :: "SubagentRunRecord \<Rightarrow> SubagentRunRecord list \<Rightarrow> SubagentRunRecord list" where
  "insertRun x [] = [x]"
| "insertRun x (y # ys) = (if runPrecedes x y then x # y # ys else y # insertRun x ys)"

text \<open>
  Modelled from the spec: \<^verbatim>\<open>sortSubagentRuns\<close> of \<^verbatim>\<open>subagents-utils\<close>, which is imported here
  and not defined. The spec (4.1, rule 2) has it sort the runs "by (active-first, then
  most recent start/creation time descending)", and (8) keep the original order of runs
  that tie: an insertion sort that places a run after the runs that tie with it. The
  theorems below hold for any \<open>sortSubagentRuns\<close>; this one only instantiates them.
\<close>

definition sortSubagentRuns_spec :: "SubagentRunRecord list \<Rightarrow> SubagentRunRecord list" where
  "sortSubagentRuns_spec runs = foldl (\<lambda>acc x. insertRun x acc) [] runs"

text \<open>
  The other collaborators of the examples: the lower-case mapping on ASCII strings, which
  maps \<^verbatim>\<open>A-Z\<close> to \<^verbatim>\<open>a-z\<close> and is \<^verbatim>\<open>String.prototype.toLowerCase\<close> on the strings of the
  examples; a display label that is the run's label, or its task when it has none; an empty session store whose writes succeed; queues with nothing
  to clear; a gateway that accepts the dispatch without a run id, reports the run done
  and has no history.
\<close>

text \<open>
  Modelled from the spec: \<^verbatim>\<open>stripToolMessages\<close> and \<^verbatim>\<open>extractAssistantText\<close> of
  \<^verbatim>\<open>sessions-helpers\<close>, which are imported here and not defined. The spec has the first
  exclude the tool-call messages (4.2, log) and the second extract an assistant utterance
  from a message (4.3, 8): tool messages are the ones of role \<^verbatim>\<open>toolResult\<close>, and the
  assistant text of a message is its string content when its role is \<^verbatim>\<open>assistant\<close>, and
  nothing for a message of another role. The theorems below hold for any two such
  functions; these only instantiate them.
\<close>

definition stripToolMessages_spec :: "ChatMessage list \<Rightarrow> ChatMessage list" where
  "stripToolMessages_spec messages = filter (\<lambda>m. role m \<noteq> Some (str ''toolResult'')) messages"

definition extractAssistantText_spec :: "ChatMessage \<Rightarrow> ustring option" where
  "extractAssistantText_spec m =
     (if role m = Some (str ''assistant'')
      then (case content m of ContentString s \<Rightarrow> Some s | _ \<Rightarrow> None) else None)"

definition asciiLower :: "ustring \<Rightarrow> ustring" where
  "asciiLower s = map (\<lambda>c. if 65 \<le> c \<and> c \<le> 90 then c + 32 else c) s"

definition exampleEnv :: env where
  "exampleEnv =
     \<lparr>now = 100000000,
      toLowerCase = asciiLower,
      listSubagentRunsForRequester = (\<lambda>k. []),
      sortSubagentRuns = sortSubagentRuns_spec,
      formatRunLabel = (\<lambda>e m. nullish (label e) (task e)),
      resolveInternalSessionKey = (\<lambda>k. k),
      resolveStorePath = (\<lambda>k. str ''sessions.json''),
      loadSessionStore = (\<lambda>p k. None),
      updateSessionStore = (\<lambda>p k e. None),
      clearSessionQueues = (\<lambda>ks. \<lparr>followupCleared = 0, laneCleared = 0, keys = []\<rparr>),
      randomUUID = str ''0b1f6c1e-idempotency'',
      callGatewayAgent = (\<lambda>p. Inr None),
      callGatewayWait = (\<lambda>r. Inr (Some \<lparr>waitStatus = Some (str ''done''), waitError = None\<rparr>)),
      callGatewayHistory = (\<lambda>k n. Inr (Some [])),
      stripToolMessages = stripToolMessages_spec,
      extractAssistantText = extractAssistantText_spec,
      sanitizeTextContent = (\<lambda>s. s),
      listLineBody = (\<lambda>recent n e s. nullish (label e) (task e)),
      infoReport = (\<lambda>n e s. str ''Run: '' @ runId e),
      INTERNAL_MESSAGE_CHANNEL = str ''webchat'',
      AGENT_LANE_SUBAGENT = str ''subagent''\<rparr>"

definition exampleRun :: "ustring \<Rightarrow> ustring \<Rightarrow> ustring \<Rightarrow> int \<Rightarrow> int option \<Rightarrow> SubagentRunRecord" where
  "exampleRun rid lbl key started ended =
     \<lparr>runId = rid, childSessionKey = key, requesterSessionKey = str ''agent:main:main'',
      label = Some lbl, task = str ''task'', model = None, createdAt = started,
      startedAt = Some started, endedAt = ended, outcome = None, cleanup = str ''keep'',
      archiveAtMs = None, cleanupHandled = False\<rparr>"

text \<open>
  Four runs at the clock 100000000: Scout and Scout2 are running, Scouting ended five
  minutes ago, and the run labelled "last" ended more than an hour ago.
\<close>

definition runScout :: SubagentRunRecord where
  "runScout = exampleRun (str ''run-aaaa-1'') (str ''Scout'') (str ''agent:main:subagent:a'') 99000000 None"

definition runScout2 :: SubagentRunRecord where
  "runScout2 = exampleRun (str ''run-bbbb-2'') (str ''Scout2'') (str ''agent:main:subagent:b'') 99500000 None"

definition runScouting :: SubagentRunRecord where
  "runScouting =
     exampleRun (str ''run-cccc-3'') (str ''Scouting'') (str ''agent:main:subagent:c'') 98000000 (Some 99700000)"

definition runLast :: SubagentRunRecord where
  "runLast =
     exampleRun (str ''run-dddd-4'') (str ''last'') (str ''agent:main:subagent:d'') 90000000 (Some 95000000)"

definition exampleRuns :: "SubagentRunRecord list" where
  "exampleRuns = [runScout, runLast, runScouting, runScout2]"

definition exampleParams :: "ustring \<Rightarrow> CommandParams" where
  "exampleParams body =
     \<lparr>commandBodyNormalized = body, isAuthorizedSender = True, senderId = Some (str ''owner''),
      sessionKey = Some (str ''agent:main:main''), commandTargetSessionKey = None\<rparr>"

text \<open>
  \<open>exampleRegistry\<close> is the same environment with the four runs in the registry.
  \<open>exampleLive\<close> has, besides, a session entry for Scout2, queues that report one follow-up
  cleared for the keys they are given, a gateway that answers the dispatch with a run id,
  and a history that ends with a tool result after the assistant's answer.
\<close>

definition exampleSession :: SessionEntry where
  "exampleSession =
     \<lparr>sessionId = Some (str ''sess-b''), sessionFile = None, inputTokens = None, outputTokens = None,
      totalTokens = None, abortedLastRun = False, updatedAt = 99500000\<rparr>"

definition exampleHistory :: "ChatMessage list" where
  "exampleHistory =
     [\<lparr>role = Some (str ''user''), content = ContentString (str ''hello there''), msgName = None,
       toolName = None\<rparr>,
      \<lparr>role = Some (str ''assistant''), content = ContentString (str ''On it.''), msgName = None,
       toolName = None\<rparr>,
      \<lparr>role = Some (str ''toolResult''), content = ContentString (str ''ok''), msgName = None,
       toolName = Some (str ''exec'')\<rparr>]"

definition exampleRegistry :: env where
  "exampleRegistry = exampleEnv\<lparr>listSubagentRunsForRequester := (\<lambda>k. exampleRuns)\<rparr>"

definition exampleLive :: env where
  "exampleLive =
     exampleEnv
       \<lparr>listSubagentRunsForRequester := (\<lambda>k. exampleRuns),
        loadSessionStore :=
          (\<lambda>p k. if k = str ''agent:main:subagent:b'' then Some exampleSession else None),
        clearSessionQueues :=
          (\<lambda>ks. \<lparr>followupCleared = 1, laneCleared = 0,
                 keys = concat (map (\<lambda>k. case k of None \<Rightarrow> [] | Some s \<Rightarrow> [s]) ks)\<rparr>),
        callGatewayAgent := (\<lambda>p. Inr (Some (str ''run-eeee-5-next''))),
        callGatewayHistory := (\<lambda>k n. Inr (Some exampleHistory))\<rparr>"

text \<open>
  \<open>exampleReadOnly\<close> is \<open>exampleLive\<close> with a session store whose write rejects.
  \<open>exampleThanks\<close> is \<open>exampleLive\<close> with a history in which a user message follows the
  assistant's last answer.
\<close>

definition exampleReadOnly :: env where
  "exampleReadOnly =
     exampleLive
       \<lparr>updateSessionStore := (\<lambda>p k e. Some (ErrorObject (str ''EROFS: read-only file system'')))\<rparr>"

definition thanksHistory :: "ChatMessage list" where
  "thanksHistory =
     [\<lparr>role = Some (str ''user''), content = ContentString (str ''hello there''), msgName = None,
       toolName = None\<rparr>,
      \<lparr>role = Some (str ''assistant''), content = ContentString (str ''On it.''), msgName = None,
       toolName = None\<rparr>,
      \<lparr>role = Some (str ''user''), content = ContentString (str ''thanks''), msgName = None,
       toolName = None\<rparr>]"

definition exampleThanks :: env where
  "exampleThanks = exampleLive\<lparr>callGatewayHistory := (\<lambda>k n. Inr (Some thanksHistory))\<rparr>"

section \<open>Names used in the statements\<close>

text \<open>
  The most recent assistant utterance of a history, in the words of the spec (4.3, 8): what
  \<^verbatim>\<open>extractAssistantText\<close> yields on the last message of role \<^verbatim>\<open>assistant\<close>, and nothing when
  the history has no such message.
\<close>

definition mostRecentAssistantUtterance_spec :: "env \<Rightarrow> ChatMessage list \<Rightarrow> ustring option" where
  "mostRecentAssistantUtterance_spec E messages =
     (case filter (\<lambda>m. role m = Some (str ''assistant'')) (rev messages) of
        [] \<Rightarrow> None
      | m # _ \<Rightarrow> extractAssistantText E m)"


text \<open>The parameter object of the dispatch of a message \<open>msg\<close> to a run.\<close>

definition dispatchParams :: "env \<Rightarrow> SubagentRunRecord \<Rightarrow> ustring \<Rightarrow> AgentParams" where
  "dispatchParams E run msg =
     \<lparr>message = msg, agentSessionKey = childSessionKey run, idempotencyKey = randomUUID E,
      deliver = False, channel = INTERNAL_MESSAGE_CHANNEL E, lane = AGENT_LANE_SUBAGENT E\<rparr>"

text \<open>
  The backend session id a send or steer works with: the trimmed \<^verbatim>\<open>sessionId\<close> of the
  child's session entry when that is a non-empty string.
\<close>

definition knownSessionId :: "env \<Rightarrow> SubagentRunRecord \<Rightarrow> ustring option" where
  "knownSessionId E run =
     (case Option.bind (snd (loadSubagentSessionEntry E (childSessionKey run))) sessionId of
        None \<Rightarrow> None
      | Some s \<Rightarrow> if trim s = [] then None else Some (trim s))"

section \<open>Digits, trimming and decimal numerals\<close>

lemma str_inject [simp]: "(str a = str b) = (a = b)"
proof -
  have "inj (of_char :: char \<Rightarrow> int)"
    by (rule injI) simp
  then show ?thesis
    unfolding str_def by (rule inj_map_eq_map)
qed

lemma str_Nil [simp]: "str [] = []"
  by (simp add: str_def)

lemma str_eq_Nil [simp]: "(str s = []) = (s = [])"
  by (simp add: str_def)

lemma str_append: "str a @ str b = str (a @ b)" "str a @ str b @ u = str (a @ b) @ u"
  by (simp_all add: str_def)

lemma digit_not_space: "is_digit c \<Longrightarrow> \<not> is_space c"
  by (auto simp: is_digit_def is_space_def Let_def)

lemma trim_id:
  assumes "s \<noteq> []" "\<not> is_space (hd s)" "\<not> is_space (last s)"
  shows "trim s = s"
proof -
  from assms have front: "dropWhile is_space s = s" by (cases s) auto
  from assms have "dropWhile is_space (rev s) = rev s" by (cases s rule: rev_cases) auto
  with front show ?thesis by (simp add: trim_def trimStart_def trimEnd_def)
qed

lemma trim_all_digits: "all_digits t \<Longrightarrow> trim t = t"
  by (rule trim_id) (auto simp: all_digits_def list_all_iff digit_not_space)

lemma all_digits_not_last: "all_digits t \<Longrightarrow> t \<noteq> str ''last''"
proof -
  have "\<not> all_digits (str ''last'')"
    by code_simp
  then show "all_digits t \<Longrightarrow> t \<noteq> str ''last''"
    by auto
qed

lemma parseInt_snoc: "parseInt (s @ [c]) = 10 * parseInt s + digit_val c"
  by (simp add: parseInt_def)

lemma digit_val_char: "d < 10 \<Longrightarrow> digit_val (digit_char d) = d"
  by (simp add: digit_val_def digit_char_def)

lemma is_digit_char: "d < 10 \<Longrightarrow> is_digit (digit_char d)"
  by (simp add: is_digit_def digit_char_def Let_def)

lemma parseInt_decimal: "parseInt (decimal n) = n"
proof (induction n rule: decimal.induct)
  case (1 n)
  show ?case
  proof (cases "n < 10")
    case True
    then show ?thesis by (subst decimal.simps) (simp add: parseInt_def digit_val_char)
  next
    case False
    with 1 show ?thesis by (subst decimal.simps) (simp add: parseInt_snoc digit_val_char)
  qed
qed

lemma all_digits_decimal: "all_digits (decimal n)"
proof (induction n rule: decimal.induct)
  case (1 n)
  show ?case
  proof (cases "n < 10")
    case True
    then show ?thesis by (subst decimal.simps) (simp add: all_digits_def is_digit_char)
  next
    case False
    with 1 show ?thesis by (subst decimal.simps) (simp add: all_digits_def is_digit_char)
  qed
qed

section \<open>The resolver on an index\<close>

lemma resolve_digits:
  assumes "all_digits t"
  shows "resolveSubagentTarget E runs (Some t) =
     (if parseInt t = 0 \<or> length (numericOrder E runs) < parseInt t
      then failed (str ''Invalid subagent index: '' @ t)
      else found (Some (numericOrder E runs ! (parseInt t - 1))))"
proof -
  have t: "trim t = t" "t \<noteq> []" "t \<noteq> str ''last''"
    using assms trim_all_digits all_digits_not_last by (auto simp: all_digits_def)
  show ?thesis
    using assms t by (auto simp: resolveSubagentTarget_def Let_def at_index_def)
qed

text \<open>
  C2. An all-digit token is a 1-based index into the sorted active runs (no \<^verbatim>\<open>endedAt\<close>,
  which for the source is a falsy one) followed by the sorted runs whose \<^verbatim>\<open>endedAt\<close> lies
  within the last 30 minutes. Index 0 and an index beyond the length of that ordering give
  the error that names the token, and so does any index when the sorted snapshot is empty,
  as for \<^verbatim>\<open>resolve([], "1")\<close>.
\<close>

theorem numeric_index_resolution:
  assumes "all_digits t"
  shows "(let sorted = sortSubagentRuns E runs;
              ordering =
                filter (\<lambda>e. \<not> truthy_num (endedAt e)) sorted @
                filter (\<lambda>e. truthy_num (endedAt e) \<and> now E - 30 * 60000 \<le> the (endedAt e)) sorted
          in resolveSubagentTarget E runs (Some t) =
               (if parseInt t = 0 \<or> length ordering < parseInt t
                then \<lparr>entry = None, error = Some (str ''Invalid subagent index: '' @ t)\<rparr>
                else \<lparr>entry = Some (ordering ! (parseInt t - 1)), error = None\<rparr>))
         \<and> (sortSubagentRuns E runs = [] \<longrightarrow>
              resolveSubagentTarget E runs (Some t) =
                \<lparr>entry = None, error = Some (str ''Invalid subagent index: '' @ t)\<rparr>)"
proof -
  have recent: "(truthy_num (endedAt e) \<and> nullish (endedAt e) 0 \<ge> c) =
                (truthy_num (endedAt e) \<and> c \<le> the (endedAt e))" for e c
    by (cases "endedAt e") (auto simp: truthy_num_def nullish_def)
  have ord: "numericOrder E runs =
      filter (\<lambda>e. \<not> truthy_num (endedAt e)) (sortSubagentRuns E runs) @
      filter (\<lambda>e. truthy_num (endedAt e) \<and> now E - 30 * 60000 \<le> the (endedAt e))
        (sortSubagentRuns E runs)"
    by (simp add: numericOrder_def Let_def RECENT_WINDOW_MINUTES_def recent)
  have empty: "sortSubagentRuns E runs = [] \<Longrightarrow> numericOrder E runs = []"
    by (simp add: numericOrder_def Let_def)
  show ?thesis
    unfolding Let_def ord [symmetric]
    using resolve_digits [OF assms, of E runs] empty
    by (auto simp: found_def failed_def)
qed

lemma sort_spec_example:
  "sortSubagentRuns exampleEnv exampleRuns = [runScout2, runScout, runScouting, runLast]"
  by (simp add: exampleEnv_def sortSubagentRuns_spec_def exampleRuns_def runScout_def
      runScout2_def runScouting_def runLast_def exampleRun_def runPrecedes_def
      effectiveStart_def nullish_def)

lemma sort_spec_empty: "sortSubagentRuns exampleEnv [] = []"
  by (simp add: exampleEnv_def sortSubagentRuns_spec_def)

theorem numeric_index_resolution_witness:
  "all_digits (str ''3'') \<and>
   resolveSubagentTarget exampleEnv exampleRuns (Some (str ''3'')) =
     \<lparr>entry = Some runScouting, error = None\<rparr> \<and>
   all_digits (str ''1'') \<and>
   resolveSubagentTarget exampleEnv [] (Some (str ''1'')) =
     \<lparr>entry = None, error = Some (str ''Invalid subagent index: 1'')\<rparr>"
proof -
  have d3: "all_digits (str ''3'')" and d1: "all_digits (str ''1'')"
    by code_simp+
  have p3: "parseInt (str ''3'') = 3"
    by code_simp
  have n: "now exampleEnv = 100000000"
    by (simp add: exampleEnv_def)
  have "resolveSubagentTarget exampleEnv exampleRuns (Some (str ''3'')) =
          \<lparr>entry = Some runScouting, error = None\<rparr>"
    using numeric_index_resolution [OF d3, of exampleEnv exampleRuns, THEN conjunct1]
    by (simp add: sort_spec_example p3 n Let_def truthy_num_def runScout_def runScout2_def
        runScouting_def runLast_def exampleRun_def)
  moreover have "resolveSubagentTarget exampleEnv [] (Some (str ''1'')) =
          \<lparr>entry = None, error = Some (str ''Invalid subagent index: 1'')\<rparr>"
    using numeric_index_resolution [OF d1, of exampleEnv "[]", THEN conjunct2]
    by (simp add: sort_spec_empty str_append)
  ultimately show ?thesis
    using d1 d3 by simp
qed

section \<open>The list verb and the numeric ordering\<close>

lemma numberLines_zip:
  "numberLines mk k es =
     (map (\<lambda>(i, e). mk i e) (zip [k ..< k + length es] es), k + length es)"
proof (induction es arbitrary: k)
  case Nil
  show ?case by simp
next
  case (Cons e es)
  have "[k ..< k + length (e # es)] = k # [Suc k ..< Suc k + length es]"
    by (subst upt_conv_Cons) simp_all
  with Cons [of "Suc k"] show ?case
    by simp
qed

lemma listNumbered_zip:
  "listNumbered mk E runs =
     (let act = filter (\<lambda>e. \<not> truthy_num (endedAt e)) (sortSubagentRuns E runs);
          rec = filter (\<lambda>e. truthy_num (endedAt e) \<and>
                    nullish (endedAt e) 0 \<ge> now E - RECENT_WINDOW_MINUTES * 60000)
                  (sortSubagentRuns E runs)
      in (map (\<lambda>(i, e). mk False i e) (zip [1 ..< 1 + length act] act),
          map (\<lambda>(i, e). mk True i e) (zip [1 + length act ..< 1 + length act + length rec] rec)))"
  by (simp add: listNumbered_def Let_def numberLines_zip)

text \<open>
  C1. The reply of the list verb is the heading of the active runs, one line per sorted
  active run, the heading of the recent runs and one line per sorted run that ended within
  the last 30 minutes, "(none)" standing for an empty part; every line opens with its
  number, a full stop and a space, the numbers run from 1 through the active lines and on
  through the recent ones, and the line numbered \<open>i\<close> shows the run that the resolver returns
  for the token \<open>i\<close> at the same snapshot and clock: both use the ordering \<open>numericOrder\<close>.
  \<open>activeLines\<close> and \<open>recentLines\<close> are the numbers and runs of the lines.
\<close>

theorem list_index_agreement:
  assumes "listNumbered (\<lambda>recent i e. (i, e)) E runs = (activeLines, recentLines)"
  shows "listAction E runs =
           ([], Returned (Some \<lparr>shouldContinue = False, reply = Some (join newline
              ([str ''active subagents:'']
               @ (if activeLines = [] then [str ''(none)'']
                  else map (\<lambda>(i, e). decimal i @ str ''. ''
                              @ listLineBody E False (now E) e
                                  (snd (loadSubagentSessionEntry E (childSessionKey e))))
                         activeLines)
               @ [str ''recent (last 30m):'']
               @ (if recentLines = [] then [str ''(none)'']
                  else map (\<lambda>(i, e). decimal i @ str ''. ''
                              @ listLineBody E True (now E) e
                                  (snd (loadSubagentSessionEntry E (childSessionKey e))))
                         recentLines)))\<rparr>))
         \<and> map fst (activeLines @ recentLines) = [1 ..< Suc (length (activeLines @ recentLines))]
         \<and> map snd (activeLines @ recentLines) = numericOrder E runs
         \<and> (\<forall>e \<in> set (map snd activeLines). \<not> truthy_num (endedAt e))
         \<and> (\<forall>e \<in> set (map snd recentLines).
               truthy_num (endedAt e) \<and> now E - 30 * 60000 \<le> the (endedAt e))
         \<and> (\<forall>(i, e) \<in> set (activeLines @ recentLines).
               resolveSubagentTarget E runs (Some (decimal i)) = \<lparr>entry = Some e, error = None\<rparr>)
         \<and> (\<forall>i. 1 \<le> i \<and> i \<le> length (activeLines @ recentLines) \<longrightarrow>
               (activeLines @ recentLines) ! (i - 1) =
                 (i, the (entry (resolveSubagentTarget E runs (Some (decimal i))))))"
proof -
  define act where "act = filter (\<lambda>e. \<not> truthy_num (endedAt e)) (sortSubagentRuns E runs)"
  define rec where "rec = filter (\<lambda>e. truthy_num (endedAt e) \<and>
      nullish (endedAt e) 0 \<ge> now E - RECENT_WINDOW_MINUTES * 60000) (sortSubagentRuns E runs)"
  have al: "activeLines = zip [1 ..< 1 + length act] act"
    and rl: "recentLines = zip [1 + length act ..< 1 + length act + length rec] rec"
    using assms unfolding listNumbered_zip Let_def act_def rec_def by simp_all
  have ord: "numericOrder E runs = act @ rec"
    by (simp add: numericOrder_def Let_def act_def rec_def)
  have both: "activeLines @ recentLines = zip [1 ..< 1 + length (act @ rec)] (act @ rec)"
  proof -
    have "[1 ..< 1 + length act + length rec] =
            [1 ..< 1 + length act] @ [1 + length act ..< 1 + length act + length rec]"
      by (rule upt_add_eq_append) simp
    then have "[1 ..< 1 + length (act @ rec)] =
            [1 ..< 1 + length act] @ [1 + length act ..< 1 + length act + length rec]"
      by (simp only: length_append add.assoc)
    then show ?thesis
      unfolding al rl by (simp only: zip_append length_upt add_diff_cancel_left')
  qed
  define ixs where "ixs = [1 ..< 1 + length (act @ rec)]"
  have ixs_len: "length ixs = length (act @ rec)"
    unfolding ixs_def by (simp only: length_upt add_diff_cancel_left')
  have ixs_nth: "ixs ! j = Suc j" if "j < length (act @ rec)" for j
    using that unfolding ixs_def by (simp del: upt_Suc)
  have ixs_upt: "ixs = [1 ..< Suc (length (act @ rec))]"
    unfolding ixs_def by (simp only: plus_1_eq_Suc)
  note both' = both [folded ixs_def]
  have len: "length (activeLines @ recentLines) = length (act @ rec)"
    unfolding both' by (simp only: length_zip ixs_len min.idem)
  have nth: "(activeLines @ recentLines) ! j = (Suc j, (act @ rec) ! j)"
    if "j < length (act @ rec)" for j
    using that unfolding both' by (simp only: nth_zip ixs_len ixs_nth)
  have res: "resolveSubagentTarget E runs (Some (decimal (Suc j))) =
               \<lparr>entry = Some ((act @ rec) ! j), error = None\<rparr>"
    if "j < length (act @ rec)" for j
    using that resolve_digits [OF all_digits_decimal, of E runs "Suc j"]
    by (simp add: parseInt_decimal ord found_def)
  have heading: "str ''recent (last '' @ decimal (nat RECENT_WINDOW_MINUTES) @ str ''m):'' =
                 str ''recent (last 30m):''"
    by code_simp
  have line: "listLineOf E recent =
      (\<lambda>i e. decimal i @ str ''. ''
           @ listLineBody E recent (now E) e (snd (loadSubagentSessionEntry E (childSessionKey e))))"
    for recent
    by (simp add: fun_eq_iff listLineOf_def)
  have lines: "listNumbered (listLineOf E) E runs =
      (map (\<lambda>(i, e). listLineOf E False i e) activeLines,
       map (\<lambda>(i, e). listLineOf E True i e) recentLines)"
    unfolding listNumbered_zip Let_def al rl act_def rec_def by simp
  have c1: "listAction E runs =
           ([], Returned (Some \<lparr>shouldContinue = False, reply = Some (join newline
              ([str ''active subagents:'']
               @ (if activeLines = [] then [str ''(none)'']
                  else map (\<lambda>(i, e). decimal i @ str ''. ''
                              @ listLineBody E False (now E) e
                                  (snd (loadSubagentSessionEntry E (childSessionKey e))))
                         activeLines)
               @ [str ''recent (last 30m):'']
               @ (if recentLines = [] then [str ''(none)'']
                  else map (\<lambda>(i, e). decimal i @ str ''. ''
                              @ listLineBody E True (now E) e
                                  (snd (loadSubagentSessionEntry E (childSessionKey e))))
                         recentLines)))\<rparr>))"
    unfolding listAction_def lines
    by (simp add: heading replyText_def line)
  have c2: "map fst (activeLines @ recentLines) = [1 ..< Suc (length (activeLines @ recentLines))]"
    unfolding len both' using map_fst_zip [of ixs "act @ rec"] ixs_len ixs_upt by simp
  have c3: "map snd (activeLines @ recentLines) = numericOrder E runs"
    unfolding both' ord using map_snd_zip [of ixs "act @ rec"] ixs_len by simp
  have c4: "\<forall>e \<in> set (map snd activeLines). \<not> truthy_num (endedAt e)"
  proof
    fix e assume "e \<in> set (map snd activeLines)"
    then have "e \<in> set act" unfolding al by (auto dest: set_zip_rightD)
    then show "\<not> truthy_num (endedAt e)" by (simp add: act_def)
  qed
  have c5: "\<forall>e \<in> set (map snd recentLines).
      truthy_num (endedAt e) \<and> now E - 30 * 60000 \<le> the (endedAt e)"
  proof
    fix e assume "e \<in> set (map snd recentLines)"
    then have "e \<in> set rec" unfolding rl by (auto dest: set_zip_rightD)
    then show "truthy_num (endedAt e) \<and> now E - 30 * 60000 \<le> the (endedAt e)"
      by (auto simp: rec_def RECENT_WINDOW_MINUTES_def truthy_num_def nullish_def
          split: option.splits)
  qed
  have c6: "\<forall>(i, e) \<in> set (activeLines @ recentLines).
      resolveSubagentTarget E runs (Some (decimal i)) = \<lparr>entry = Some e, error = None\<rparr>"
  proof (clarify)
    fix i e
    assume "(i, e) \<in> set (activeLines @ recentLines)"
    then obtain j where j: "j < length (act @ rec)"
      and ij: "(activeLines @ recentLines) ! j = (i, e)"
      unfolding in_set_conv_nth len by blast
    from j ij nth [OF j] have "i = Suc j" "e = (act @ rec) ! j"
      by simp_all
    with res [OF j] show
      "resolveSubagentTarget E runs (Some (decimal i)) = \<lparr>entry = Some e, error = None\<rparr>"
      by simp
  qed
  have c7: "\<forall>i. 1 \<le> i \<and> i \<le> length (activeLines @ recentLines) \<longrightarrow>
      (activeLines @ recentLines) ! (i - 1) =
        (i, the (entry (resolveSubagentTarget E runs (Some (decimal i)))))"
  proof (intro allI impI)
    fix i assume i: "1 \<le> i \<and> i \<le> length (activeLines @ recentLines)"
    then obtain j where j: "i = Suc j" "j < length (act @ rec)"
      unfolding len by (cases i) auto
    show "(activeLines @ recentLines) ! (i - 1) =
        (i, the (entry (resolveSubagentTarget E runs (Some (decimal i)))))"
      using nth [OF j(2)] res [OF j(2)] j(1) by simp
  qed
  from c1 c2 c3 c4 c5 c6 c7 show ?thesis
    by blast
qed

lemma list_example:
  "listNumbered (\<lambda>recent i e. (i, e)) exampleRegistry exampleRuns =
     ([(1, runScout2), (2, runScout)], [(3, runScouting)])"
  "handleSubagentsCommand exampleRegistry (exampleParams (str ''/subagents list'')) True =
     listAction exampleRegistry exampleRuns"
  "decimal 3 = str ''3''"
  by code_simp+

theorem list_index_agreement_witness:
  "handleSubagentsCommand exampleRegistry (exampleParams (str ''/subagents list'')) True =
     ([], Returned (Some \<lparr>shouldContinue = False, reply = Some (join newline
        [str ''active subagents:'', str ''1. Scout2'', str ''2. Scout'',
         str ''recent (last 30m):'', str ''3. Scouting''])\<rparr>)) \<and>
   resolveSubagentTarget exampleRegistry exampleRuns (Some (str ''3'')) =
     \<lparr>entry = Some runScouting, error = None\<rparr>"
proof -
  note agree = list_index_agreement [OF list_example(1)]
  have shown: "handleSubagentsCommand exampleRegistry (exampleParams (str ''/subagents list'')) True =
     ([], Returned (Some \<lparr>shouldContinue = False, reply = Some (join newline
        [str ''active subagents:'', str ''1. Scout2'', str ''2. Scout'',
         str ''recent (last 30m):'', str ''3. Scouting''])\<rparr>))"
    unfolding list_example(2) agree [THEN conjunct1]
    by code_simp
  have "\<forall>(i, e) \<in> set ([(1, runScout2), (2, runScout)] @ [(3, runScouting)]).
          resolveSubagentTarget exampleRegistry exampleRuns (Some (decimal i)) =
            \<lparr>entry = Some e, error = None\<rparr>"
    using agree by blast
  then have "resolveSubagentTarget exampleRegistry exampleRuns (Some (str ''3'')) =
     \<lparr>entry = Some runScouting, error = None\<rparr>"
    by (simp add: list_example(3))
  with shown show ?thesis
    by simp
qed

section \<open>Labels\<close>

lemma resolve_by_label:
  assumes "trim t = s" "s \<noteq> []" "s \<noteq> str ''last''" "\<not> all_digits s" "colon \<notin> set s"
  shows "resolveSubagentTarget E runs (Some t) =
     (let byLabel = filter (\<lambda>e. toLowerCase E (formatRunLabel E e None) = toLowerCase E s) runs;
          byLabelPrefix =
            filter (\<lambda>e. startsWith (toLowerCase E (formatRunLabel E e None)) (toLowerCase E s)) runs;
          byRunId = filter (\<lambda>e. startsWith (runId e) s) runs
      in if length byLabel = 1 then found (Some (byLabel ! 0))
         else if length byLabel > 1 then failed (str ''Ambiguous subagent label: '' @ s)
         else if length byLabelPrefix = 1 then found (Some (byLabelPrefix ! 0))
         else if length byLabelPrefix > 1 then failed (str ''Ambiguous subagent label prefix: '' @ s)
         else if length byRunId = 1 then found (Some (byRunId ! 0))
         else if length byRunId > 1 then failed (str ''Ambiguous run id prefix: '' @ s)
         else failed (str ''Unknown subagent id: '' @ s))"
  using assms by (simp add: resolveSubagentTarget_def Let_def at_index_def)

text \<open>
  C3, amended. For a token whose trimmed form is not empty, is not the literal \<^verbatim>\<open>last\<close>, is
  not all digits and has no colon: when exactly one run's display label equals the trimmed
  token case-insensitively, resolution succeeds with that run, whatever labels it is a
  prefix of; when no label equals it and two or more labels start with it
  case-insensitively, resolution is the ambiguity error that names the trimmed token.
\<close>

theorem label_matching:
  assumes "trim t = s" "s \<noteq> []" "s \<noteq> str ''last''" "\<not> all_digits s" "colon \<notin> set s"
  shows "(\<forall>r. filter (\<lambda>e. toLowerCase E (formatRunLabel E e None) = toLowerCase E s) runs = [r] \<longrightarrow>
              resolveSubagentTarget E runs (Some t) = \<lparr>entry = Some r, error = None\<rparr>)
         \<and> (filter (\<lambda>e. toLowerCase E (formatRunLabel E e None) = toLowerCase E s) runs = [] \<and>
            2 \<le> length (filter (\<lambda>e. startsWith (toLowerCase E (formatRunLabel E e None))
                                      (toLowerCase E s)) runs) \<longrightarrow>
              resolveSubagentTarget E runs (Some t) =
                \<lparr>entry = None, error = Some (str ''Ambiguous subagent label prefix: '' @ s)\<rparr>)"
  unfolding resolve_by_label [OF assms]
  by (auto simp: Let_def found_def failed_def)

lemma scout_tokens:
  "trim (str ''scout'') = str ''scout''" "\<not> all_digits (str ''scout'')" "colon \<notin> set (str ''scout'')"
  "trim (str '' scou'') = str ''scou''" "\<not> all_digits (str ''scou'')" "colon \<notin> set (str ''scou'')"
  by code_simp+

lemma scout_labels:
  "filter (\<lambda>e. toLowerCase exampleEnv (formatRunLabel exampleEnv e None) = toLowerCase exampleEnv (str ''scout'')) exampleRuns
     = [runScout]"
  "filter (\<lambda>e. toLowerCase exampleEnv (formatRunLabel exampleEnv e None) = toLowerCase exampleEnv (str ''scou'')) exampleRuns
     = []"
  "length (filter (\<lambda>e. startsWith (toLowerCase exampleEnv (formatRunLabel exampleEnv e None))
                          (toLowerCase exampleEnv (str ''scou''))) exampleRuns) = 3"
  by code_simp+

theorem label_matching_witness:
  "resolveSubagentTarget exampleEnv exampleRuns (Some (str ''scout'')) =
     \<lparr>entry = Some runScout, error = None\<rparr> \<and>
   resolveSubagentTarget exampleEnv exampleRuns (Some (str '' scou'')) =
     \<lparr>entry = None, error = Some (str ''Ambiguous subagent label prefix: scou'')\<rparr>"
proof -
  have "resolveSubagentTarget exampleEnv exampleRuns (Some (str ''scout'')) =
     \<lparr>entry = Some runScout, error = None\<rparr>"
    using label_matching [of "(str ''scout'')" "(str ''scout'')" exampleEnv exampleRuns, THEN conjunct1]
      scout_tokens scout_labels(1)
    by simp
  moreover have "resolveSubagentTarget exampleEnv exampleRuns (Some (str '' scou'')) =
     \<lparr>entry = None, error = Some (str ''Ambiguous subagent label prefix: scou'')\<rparr>"
    using label_matching [of "(str '' scou'')" "(str ''scou'')" exampleEnv exampleRuns, THEN conjunct2]
      scout_tokens scout_labels(2,3)
    by (simp add: str_append)
  ultimately show ?thesis
    by simp
qed

text \<open>
  The claim as stated covers every token that is not numeric and has no colon, so also
  \<^verbatim>\<open>last\<close>. In the example exactly one run is labelled "last", and the token \<^verbatim>\<open>last\<close> resolves
  to another run, the first of the sorted snapshot.
\<close>

theorem label_matching_last_counterexample:
  "\<not> all_digits (str ''last'') \<and> colon \<notin> set (str ''last'') \<and>
   filter (\<lambda>e. toLowerCase exampleEnv (formatRunLabel exampleEnv e None) = toLowerCase exampleEnv (str ''last'')) exampleRuns
     = [runLast] \<and>
   resolveSubagentTarget exampleEnv exampleRuns (Some (str ''last'')) =
     \<lparr>entry = Some runScout2, error = None\<rparr> \<and>
   runScout2 \<noteq> runLast"
  by code_simp

section \<open>What a resolution carries\<close>

lemma resolve_none: "resolveSubagentTarget E runs None = failed (str ''Missing subagent id.'')"
  by (simp add: resolveSubagentTarget_def)

lemma resolve_last:
  "trim t = str ''last'' \<Longrightarrow>
   resolveSubagentTarget E runs (Some t) = found (at_index (sortSubagentRuns E runs) 0)"
  by (simp add: resolveSubagentTarget_def)

lemma resolve_one_of:
  assumes "map_option trim token = Some (str ''last'') \<longrightarrow> sortSubagentRuns E runs \<noteq> []"
  shows "(\<exists>r. resolveSubagentTarget E runs token = \<lparr>entry = Some r, error = None\<rparr>) \<or>
         (\<exists>m. m \<noteq> [] \<and> resolveSubagentTarget E runs token = \<lparr>entry = None, error = Some m\<rparr>)"
proof (cases token)
  case None
  then show ?thesis by (simp add: resolve_none failed_def)
next
  case (Some t)
  show ?thesis
  proof (cases "trim t = str ''last''")
    case True
    with assms Some show ?thesis
      by (simp add: resolve_last found_def at_index_def)
  next
    case notlast: False
    show ?thesis
    proof (cases "trim t = []")
      case True
      with Some show ?thesis by (simp add: resolveSubagentTarget_def failed_def)
    next
      case nonempty: False
      show ?thesis
      proof (cases "all_digits (trim t)")
        case True
        with Some notlast nonempty show ?thesis
          by (auto simp: resolveSubagentTarget_def Let_def at_index_def found_def failed_def)
      next
        case nodigits: False
        show ?thesis
        proof (cases "colon \<in> set (trim t)")
          case True
          with Some notlast nonempty nodigits show ?thesis
            by (simp add: resolveSubagentTarget_def Let_def found_def failed_def
                split: option.splits)
        next
          case False
          note r = resolve_by_label [OF refl nonempty notlast nodigits False, of E runs]
          show ?thesis
            unfolding Some r by (simp add: Let_def found_def failed_def)
        qed
      qed
    qed
  qed
qed

section \<open>From the command to the verb\<close>

text \<open>
  An authorized command with a handled prefix and a requester key runs the branch of its
  verb on the requester's runs and the tokens after the verb.
\<close>

lemma handleSubagentsCommand_verb:
  assumes "handledPrefixOf (commandBodyNormalized params) = Some handledPrefix"
    and "isAuthorizedSender params"
    and "parseAction E handledPrefix
           (splitTokens [] (trim (drop (length handledPrefix) (commandBodyNormalized params)))) =
         Some (action, steerRequested, tokens)"
    and "resolveRequesterSessionKey E params = Some requesterKey" "requesterKey \<noteq> []"
  shows "handleSubagentsCommand E params True =
     (let runs = listSubagentRunsForRequester E requesterKey in
      if action = str ''stop'' then stopAction E handledPrefix requesterKey runs tokens
      else if action = str ''info'' then infoAction E runs tokens
      else if action = str ''log'' then logAction E runs tokens
      else if action = str ''send'' then sendAction E handledPrefix steerRequested runs tokens
      else if action = str ''list'' then listAction E runs
      else ([], replyText buildSubagentsHelp))"
  using assms by (simp add: handleSubagentsCommand_def runAction_def Let_def)

section \<open>stop\<close>

lemma stopAction_resolved:
  assumes "target \<noteq> str ''all''" "target \<noteq> str ''*''"
    and "entry (resolveSubagentTarget E runs (Some target)) = Some run"
  shows "stopAction E handledPrefix requesterKey runs (target # rest) =
     (if truthy_num (endedAt run)
      then ([], replyText (formatRunLabel E run None @ str '' is already finished.''))
      else
        let childKey = childSessionKey run;
            storePath = fst (loadSubagentSessionEntry E childKey);
            sessionEntry = snd (loadSubagentSessionEntry E childKey);
            sid = Option.bind sessionEntry sessionId;
            evs = (if truthy_str sid then [AbortEmbeddedPiRun (the sid)] else [])
                  @ [ClearSessionQueues [Some childKey, sid]]
                  @ clearedLog (str ''stop'') (clearSessionQueues E [Some childKey, sid])
        in (case sessionEntry of
              None \<Rightarrow> (evs @ [StopSubagentsForRequester childKey], noReply)
            | Some se \<Rightarrow>
                let se' = se\<lparr>abortedLastRun := True, updatedAt := now E\<rparr>;
                    evs' = evs @ [UpdateSessionStore storePath childKey se']
                in (case updateSessionStore E storePath childKey se' of
                      Some err \<Rightarrow> (evs', Rejected err)
                    | None \<Rightarrow> (evs' @ [StopSubagentsForRequester childKey], noReply))))"
  using assms
  by (simp add: stopAction_def Let_def split_beta Option.bind_def split: option.splits)

text \<open>
  C4. A stop whose target resolves to a run with a set \<^verbatim>\<open>endedAt\<close> replies that the run is
  already finished, and issues no call at all: no abort, no clearing of queues, no write
  to the session store, no cascaded stop.
\<close>

theorem stop_already_finished:
  assumes "target \<noteq> str ''all''" "target \<noteq> str ''*''"
    and "entry (resolveSubagentTarget E runs (Some target)) = Some run"
    and "truthy_num (endedAt run)"
  shows "stopAction E handledPrefix requesterKey runs (target # rest) =
           ([], replyText (formatRunLabel E run None @ str '' is already finished.''))"
  using assms(4) by (simp add: stopAction_resolved [OF assms(1-3)])

text \<open>
  C5, amended. A stop whose target resolves to an active run aborts the backend session
  when the session entry has a session id, clears the queues of the child key and that
  id, and, when there is a session entry, writes \<^verbatim>\<open>abortedLastRun\<close> to it. When there is no
  entry to write, or once the awaited write has resolved, it ends with the wholesale stop
  for the requester key that is the child's own session key. When the write rejects, the
  handler rejects with that error after the write and the cascaded stop is not issued.
\<close>

theorem stop_cascade:
  assumes "target \<noteq> str ''all''" "target \<noteq> str ''*''"
    and "entry (resolveSubagentTarget E runs (Some target)) = Some run"
    and "\<not> truthy_num (endedAt run)"
    and "loadSubagentSessionEntry E (childSessionKey run) = (storePath, sessionEntry)"
  shows "stopAction E handledPrefix requesterKey runs (target # rest) =
     (let issued =
            (case Option.bind sessionEntry sessionId of
               None \<Rightarrow> []
             | Some sid \<Rightarrow> if sid = [] then [] else [AbortEmbeddedPiRun sid])
            @ [ClearSessionQueues [Some (childSessionKey run), Option.bind sessionEntry sessionId]]
            @ clearedLog (str ''stop'')
                (clearSessionQueues E
                   [Some (childSessionKey run), Option.bind sessionEntry sessionId])
      in case sessionEntry of
           None \<Rightarrow>
             (issued @ [StopSubagentsForRequester (childSessionKey run)],
              Returned (Some \<lparr>shouldContinue = False, reply = None\<rparr>))
         | Some se \<Rightarrow>
             (case updateSessionStore E storePath (childSessionKey run)
                     (se\<lparr>abortedLastRun := True, updatedAt := now E\<rparr>) of
                None \<Rightarrow>
                  (issued
                   @ [UpdateSessionStore storePath (childSessionKey run)
                        (se\<lparr>abortedLastRun := True, updatedAt := now E\<rparr>),
                      StopSubagentsForRequester (childSessionKey run)],
                   Returned (Some \<lparr>shouldContinue = False, reply = None\<rparr>))
              | Some err \<Rightarrow>
                  (issued
                   @ [UpdateSessionStore storePath (childSessionKey run)
                        (se\<lparr>abortedLastRun := True, updatedAt := now E\<rparr>)],
                   Rejected err)))"
proof (cases sessionEntry)
  case None
  with assms(4,5) show ?thesis
    by (simp add: stopAction_resolved [OF assms(1-3)] Let_def truthy_str_def noReply_def)
next
  case (Some se)
  show ?thesis
  proof (cases "updateSessionStore E storePath (childSessionKey run)
      (se\<lparr>abortedLastRun := True, updatedAt := now E\<rparr>)")
    case None
    with Some assms(4,5) show ?thesis
      by (cases "sessionId se")
        (simp_all add: stopAction_resolved [OF assms(1-3)] Let_def truthy_str_def noReply_def)
  next
    case (Some err)
    with \<open>sessionEntry = Some se\<close> assms(4,5) show ?thesis
      by (cases "sessionId se")
        (simp_all add: stopAction_resolved [OF assms(1-3)] Let_def truthy_str_def noReply_def)
  qed
qed

lemma stop_ended_example:
  "handleSubagentsCommand exampleLive (exampleParams (str ''/subagents stop 3'')) True =
     stopAction exampleLive (str ''/subagents'') (str ''agent:main:main'') exampleRuns [str ''3'']"
  "(str ''3'') \<noteq> str ''all''" "(str ''3'') \<noteq> str ''*''"
  "entry (resolveSubagentTarget exampleLive exampleRuns (Some (str ''3''))) = Some runScouting"
  "truthy_num (endedAt runScouting)"
  "formatRunLabel exampleLive runScouting None = str ''Scouting''"
  by code_simp+

theorem stop_already_finished_witness:
  "handleSubagentsCommand exampleLive (exampleParams (str ''/subagents stop 3'')) True =
     ([], Returned (Some \<lparr>shouldContinue = False, reply = Some (str ''Scouting is already finished.'')\<rparr>))"
  unfolding stop_ended_example(1) stop_already_finished [OF stop_ended_example(2-5)]
  by (simp add: stop_ended_example(6) replyText_def str_append)

lemma stop_active_example:
  "handleSubagentsCommand exampleLive (exampleParams (str ''/kill 1'')) True =
     stopAction exampleLive (str ''/kill'') (str ''agent:main:main'') exampleRuns [str ''1'']"
  "(str ''1'') \<noteq> str ''all''" "(str ''1'') \<noteq> str ''*''"
  "entry (resolveSubagentTarget exampleLive exampleRuns (Some (str ''1''))) = Some runScout2"
  "\<not> truthy_num (endedAt runScout2)"
  "loadSubagentSessionEntry exampleLive (childSessionKey runScout2) =
     (str ''sessions.json'', Some exampleSession)"
  by code_simp+

theorem stop_cascade_witness:
  "handleSubagentsCommand exampleLive (exampleParams (str ''/kill 1'')) True =
     ([AbortEmbeddedPiRun (str ''sess-b''),
       ClearSessionQueues [Some (str ''agent:main:subagent:b''), Some (str ''sess-b'')],
       LogVerbose
         (str ''subagents stop: cleared followups=1 lane=0 keys=agent:main:subagent:b,sess-b''),
       UpdateSessionStore (str ''sessions.json'') (str ''agent:main:subagent:b'')
         (exampleSession\<lparr>abortedLastRun := True, updatedAt := 100000000\<rparr>),
       StopSubagentsForRequester (str ''agent:main:subagent:b'')],
      Returned (Some \<lparr>shouldContinue = False, reply = None\<rparr>))"
  unfolding stop_active_example(1) stop_cascade [OF stop_active_example(2-6)]
  by code_simp

text \<open>
  The claim as stated covers every stop of an active target. In the example the write of
  the session entry rejects: the backend session is aborted, the queues are cleared, the
  write is attempted, the handler rejects, and no cascaded stop is issued.
\<close>

theorem stop_cascade_rejected_write_counterexample:
  "entry (resolveSubagentTarget exampleReadOnly exampleRuns (Some (str ''1''))) = Some runScout2 \<and>
   \<not> truthy_num (endedAt runScout2) \<and>
   handleSubagentsCommand exampleReadOnly (exampleParams (str ''/kill 1'')) True =
     ([AbortEmbeddedPiRun (str ''sess-b''),
       ClearSessionQueues [Some (str ''agent:main:subagent:b''), Some (str ''sess-b'')],
       LogVerbose
         (str ''subagents stop: cleared followups=1 lane=0 keys=agent:main:subagent:b,sess-b''),
       UpdateSessionStore (str ''sessions.json'') (str ''agent:main:subagent:b'')
         (exampleSession\<lparr>abortedLastRun := True, updatedAt := 100000000\<rparr>)],
      Rejected (ErrorObject (str ''EROFS: read-only file system''))) \<and>
   StopSubagentsForRequester (childSessionKey runScout2) \<notin>
     set (fst (handleSubagentsCommand exampleReadOnly (exampleParams (str ''/kill 1'')) True))"
  by code_simp

section \<open>send and steer\<close>

lemma sendAction_unfolded:
  assumes "trim (join (str '' '') rest) = msg" "msg \<noteq> []"
    and "entry (resolveSubagentTarget E runs (Some target)) = Some run"
    and "\<not> truthy_num (endedAt run)"
  shows "sendAction E handledPrefix steerRequested runs (target # rest) =
     (let sid = Option.bind (snd (loadSubagentSessionEntry E (childSessionKey run))) sessionId;
          targetSessionId = (if truthy_str (map_option trim sid) then map_option trim sid else None);
          steerEvs =
            (if steerRequested then
               [MarkSubagentRunForSteerRestart (runId run)]
               @ (if truthy_str targetSessionId then [AbortEmbeddedPiRun (the targetSessionId)] else [])
               @ [ClearSessionQueues [Some (childSessionKey run), targetSessionId]]
               @ clearedLog (str ''steer'')
                   (clearSessionQueues E [Some (childSessionKey run), targetSessionId])
             else []);
          evs = steerEvs @ [GatewayAgent (dispatchParams E run msg) 10000]
      in (case callGatewayAgent E (dispatchParams E run msg) of
            Inl err \<Rightarrow> (evs, replyText (str ''send failed: '' @ thrownText err))
          | Inr response \<Rightarrow>
              let rid = dispatchedRunId (randomUUID E) response in
              if steerRequested then
                (evs @ [ReplaceSubagentRunAfterSteer (runId run) rid run],
                 replyText (str ''steered '' @ formatRunLabel E run None
                            @ str '' (run '' @ take 8 rid @ str '').''))
              else
                let evs2 = evs @ [GatewayAgentWait rid 30000 (30000 + 2000)] in
                (case callGatewayWait E rid of
                   Inl err \<Rightarrow> (evs2, Rejected err)
                 | Inr wait \<Rightarrow>
                     if Option.bind wait waitStatus = Some (str ''timeout'') then
                       (evs2, replyText (hourglassSign @ str '' Subagent still running (run ''
                                         @ take 8 rid @ str '').''))
                     else if Option.bind wait waitStatus = Some (str ''error'') then
                       (evs2, replyText (warningSign @ str '' Subagent error: ''
                                         @ nullish (Option.bind wait waitError) (str ''unknown error'')
                                         @ str '' (run '' @ take 8 rid @ str '').''))
                     else
                       let evs3 = evs2 @ [GatewayChatHistory (childSessionKey run) 50] in
                       (case callGatewayHistory E (childSessionKey run) 50 of
                          Inl err \<Rightarrow> (evs3, Rejected err)
                        | Inr history \<Rightarrow>
                            let filtered = stripToolMessages E (nullish history []);
                                lastMessage = (if length filtered > 0
                                               then Some (last filtered) else None);
                                extracted = Option.bind lastMessage (extractAssistantText E)
                            in (evs3, replyText
                                  (nullish extracted
                                     (checkSign @ str '' Sent to '' @ formatRunLabel E run None
                                      @ str '' (run '' @ take 8 rid @ str '').'')))))))"
proof -
  have sid: "(case snd (loadSubagentSessionEntry E (childSessionKey run)) of
                None \<Rightarrow> None | Some se \<Rightarrow> sessionId se) =
             Option.bind (snd (loadSubagentSessionEntry E (childSessionKey run))) sessionId"
    by (simp add: Option.bind_def split: option.splits)
  show ?thesis
    unfolding sendAction_def dispatchParams_def
    using assms
    by (simp only: Let_def sid list.case drop_Suc_Cons drop_0 One_nat_def option.simps
        simp_thms if_False if_True)
qed

lemma knownSessionId_eq:
  "(if truthy_str (map_option trim
         (Option.bind (snd (loadSubagentSessionEntry E (childSessionKey run))) sessionId))
    then map_option trim
         (Option.bind (snd (loadSubagentSessionEntry E (childSessionKey run))) sessionId)
    else None) =
   knownSessionId E run"
  by (simp add: knownSessionId_def truthy_str_def split: option.splits)

lemma knownSessionId_truthy:
  "(if truthy_str (knownSessionId E run) then [AbortEmbeddedPiRun (the (knownSessionId E run))]
    else []) =
   (case knownSessionId E run of None \<Rightarrow> [] | Some s \<Rightarrow> [AbortEmbeddedPiRun s])"
  by (simp add: knownSessionId_def truthy_str_def split: option.splits)

lemma dispatchedRunId_cases:
  "dispatchedRunId key response =
     (case response of None \<Rightarrow> key | Some r \<Rightarrow> if r = [] then key else r)"
  by (simp add: dispatchedRunId_def truthy_str_def split: option.splits)

lemma sendAction_resolved:
  assumes "trim (join (str '' '') rest) = msg" "msg \<noteq> []"
    and "entry (resolveSubagentTarget E runs (Some target)) = Some run"
    and "\<not> truthy_num (endedAt run)"
  shows "sendAction E handledPrefix steerRequested runs (target # rest) =
     (let rid = dispatchedRunId (randomUUID E);
          steerEvs =
            (if steerRequested then
               [MarkSubagentRunForSteerRestart (runId run)]
               @ (case knownSessionId E run of None \<Rightarrow> [] | Some s \<Rightarrow> [AbortEmbeddedPiRun s])
               @ [ClearSessionQueues [Some (childSessionKey run), knownSessionId E run]]
               @ clearedLog (str ''steer'')
                   (clearSessionQueues E [Some (childSessionKey run), knownSessionId E run])
             else []);
          evs = steerEvs @ [GatewayAgent (dispatchParams E run msg) 10000];
          sent = (\<lambda>response.
                   replyText (checkSign @ str '' Sent to '' @ formatRunLabel E run None
                              @ str '' (run '' @ take 8 (rid response) @ str '').''))
      in (case callGatewayAgent E (dispatchParams E run msg) of
            Inl err \<Rightarrow> (evs, replyText (str ''send failed: '' @ thrownText err))
          | Inr response \<Rightarrow>
              if steerRequested then
                (evs @ [ReplaceSubagentRunAfterSteer (runId run) (rid response) run],
                 replyText (str ''steered '' @ formatRunLabel E run None
                            @ str '' (run '' @ take 8 (rid response) @ str '').''))
              else
                (case callGatewayWait E (rid response) of
                   Inl err \<Rightarrow> (evs @ [GatewayAgentWait (rid response) 30000 32000], Rejected err)
                 | Inr wait \<Rightarrow>
                     if Option.bind wait waitStatus = Some (str ''timeout'') then
                       (evs @ [GatewayAgentWait (rid response) 30000 32000],
                        replyText (hourglassSign @ str '' Subagent still running (run ''
                                   @ take 8 (rid response) @ str '').''))
                     else if Option.bind wait waitStatus = Some (str ''error'') then
                       (evs @ [GatewayAgentWait (rid response) 30000 32000],
                        replyText (warningSign @ str '' Subagent error: ''
                                   @ nullish (Option.bind wait waitError) (str ''unknown error'')
                                   @ str '' (run '' @ take 8 (rid response) @ str '').''))
                     else
                       (case callGatewayHistory E (childSessionKey run) 50 of
                          Inl err \<Rightarrow>
                            (evs @ [GatewayAgentWait (rid response) 30000 32000,
                                    GatewayChatHistory (childSessionKey run) 50], Rejected err)
                        | Inr history \<Rightarrow>
                            (evs @ [GatewayAgentWait (rid response) 30000 32000,
                                    GatewayChatHistory (childSessionKey run) 50],
                             (case stripToolMessages E (nullish history []) of
                                [] \<Rightarrow> sent response
                              | m # ms \<Rightarrow>
                                  (case extractAssistantText E (last (m # ms)) of
                                     None \<Rightarrow> sent response
                                   | Some text \<Rightarrow> replyText text)))))))"
proof -
  have n: "(30000::int) + 2000 = 32000"
    by simp
  have lastm: "(if 0 < length xs then Some (last xs) else None) =
               (case xs of [] \<Rightarrow> None | m # ms \<Rightarrow> Some (last (m # ms)))" for xs :: "ChatMessage list"
    by (cases xs) simp_all
  show ?thesis
    unfolding sendAction_unfolded [OF assms]
    apply (simp only: Let_def knownSessionId_eq knownSessionId_truthy n lastm)
    apply (simp add: nullish_def split: sum.splits option.splits list.splits)
    done
qed

text \<open>
  C6. A steer of an active run issues, in this order: the registry's mark for steer restart
  on the run's id; the abort of the backend session when a session id is known; the
  clearing of the queues of the child key and that id; the dispatch of the message; and,
  only when the dispatch has returned a response, the registry's replacement of the run's
  id by the new one with the run as fallback.
\<close>

theorem steer_ordering:
  assumes "trim (join (str '' '') rest) = msg" "msg \<noteq> []"
    and "entry (resolveSubagentTarget E runs (Some target)) = Some run"
    and "\<not> truthy_num (endedAt run)"
  shows "fst (sendAction E handledPrefix True runs (target # rest)) =
     [MarkSubagentRunForSteerRestart (runId run)]
     @ (case knownSessionId E run of None \<Rightarrow> [] | Some s \<Rightarrow> [AbortEmbeddedPiRun s])
     @ [ClearSessionQueues [Some (childSessionKey run), knownSessionId E run]]
     @ clearedLog (str ''steer'')
         (clearSessionQueues E [Some (childSessionKey run), knownSessionId E run])
     @ [GatewayAgent (dispatchParams E run msg) 10000]
     @ (case callGatewayAgent E (dispatchParams E run msg) of
          Inl err \<Rightarrow> []
        | Inr response \<Rightarrow>
            [ReplaceSubagentRunAfterSteer (runId run)
               (dispatchedRunId (randomUUID E) response) run])"
  unfolding sendAction_resolved [OF assms]
  by (simp add: Let_def split: sum.splits)

text \<open>
  C8, amended. A send (not a steer) to an active run whose dispatch returns a response and
  whose wait returns the status \<^verbatim>\<open>done\<close> fetches the history of the child session after the
  wait. When the fetch returns, the reply is the assistant text extracted from the last
  message left after the tool messages are stripped, or the acknowledgment that names
  the run's label and the first eight code units of the run id when no message is left
  or that last message yields no text. When the fetch rejects, the handler rejects.
\<close>

theorem send_round_trip:
  assumes "trim (join (str '' '') rest) = msg" "msg \<noteq> []"
    and "entry (resolveSubagentTarget E runs (Some target)) = Some run"
    and "\<not> truthy_num (endedAt run)"
    and "callGatewayAgent E (dispatchParams E run msg) = Inr response"
    and "callGatewayWait E (dispatchedRunId (randomUUID E) response) = Inr (Some w)"
    and "waitStatus w = Some (str ''done'')"
  shows "sendAction E handledPrefix False runs (target # rest) =
     ([GatewayAgent (dispatchParams E run msg) 10000,
       GatewayAgentWait (dispatchedRunId (randomUUID E) response) 30000 32000,
       GatewayChatHistory (childSessionKey run) 50],
      (case callGatewayHistory E (childSessionKey run) 50 of
         Inl err \<Rightarrow> Rejected err
       | Inr history \<Rightarrow>
           Returned (Some \<lparr>shouldContinue = False, reply = Some
             (case (case stripToolMessages E (case history of None \<Rightarrow> [] | Some ms \<Rightarrow> ms) of
                      [] \<Rightarrow> None
                    | m # ms \<Rightarrow> extractAssistantText E (last (m # ms))) of
                Some text \<Rightarrow> text
              | None \<Rightarrow>
                  checkSign @ str '' Sent to '' @ formatRunLabel E run None @ str '' (run ''
                    @ take 8 (dispatchedRunId (randomUUID E) response) @ str '').'')\<rparr>)))"
  unfolding sendAction_resolved [OF assms(1-4)]
  using assms(5-7)
  by (simp add: Let_def nullish_def replyText_def split: option.splits list.splits sum.splits)

text \<open>
  C10. After a dispatch that returns a response, the run id of a send or steer is the
  response's \<^verbatim>\<open>runId\<close> when that is a non-empty string and the idempotency key otherwise; it
  is not empty when the key is not. It is the id of the registry's replacement and of the
  reply of a steer, the id the wait of a send is called with, and the id in the replies
  of a send that timed out or failed.
\<close>

theorem dispatch_run_id:
  assumes "trim (join (str '' '') rest) = msg" "msg \<noteq> []"
    and "entry (resolveSubagentTarget E runs (Some target)) = Some run"
    and "\<not> truthy_num (endedAt run)"
    and "callGatewayAgent E (dispatchParams E run msg) = Inr response"
    and "rid = (case response of None \<Rightarrow> randomUUID E
                | Some r \<Rightarrow> if r = [] then randomUUID E else r)"
  shows "idempotencyKey (dispatchParams E run msg) = randomUUID E
     \<and> (randomUUID E \<noteq> [] \<longrightarrow> rid \<noteq> [])
     \<and> (\<exists>pre. sendAction E handledPrefix True runs (target # rest) =
           (pre @ [GatewayAgent (dispatchParams E run msg) 10000,
                   ReplaceSubagentRunAfterSteer (runId run) rid run],
            replyText (str ''steered '' @ formatRunLabel E run None
                       @ str '' (run '' @ take 8 rid @ str '').'')))
     \<and> (\<exists>post c. sendAction E handledPrefix False runs (target # rest) =
           ([GatewayAgent (dispatchParams E run msg) 10000, GatewayAgentWait rid 30000 32000]
            @ post, c))
     \<and> (\<forall>w. callGatewayWait E rid = Inr w \<and> Option.bind w waitStatus = Some (str ''timeout'') \<longrightarrow>
           snd (sendAction E handledPrefix False runs (target # rest)) =
             replyText (hourglassSign @ str '' Subagent still running (run '' @ take 8 rid @ str '').''))
     \<and> (\<forall>w. callGatewayWait E rid = Inr w \<and> Option.bind w waitStatus = Some (str ''error'') \<longrightarrow>
           snd (sendAction E handledPrefix False runs (target # rest)) =
             replyText (warningSign @ str '' Subagent error: ''
                        @ nullish (Option.bind w waitError) (str ''unknown error'')
                        @ str '' (run '' @ take 8 rid @ str '').''))"
proof -
  have rid: "dispatchedRunId (randomUUID E) response = rid"
    by (simp add: dispatchedRunId_cases assms(6))
  have c1: "idempotencyKey (dispatchParams E run msg) = randomUUID E"
    by (simp add: dispatchParams_def)
  have c2: "randomUUID E \<noteq> [] \<longrightarrow> rid \<noteq> []"
    by (simp add: assms(6) split: option.splits)
  have c3: "\<exists>pre. sendAction E handledPrefix True runs (target # rest) =
           (pre @ [GatewayAgent (dispatchParams E run msg) 10000,
                   ReplaceSubagentRunAfterSteer (runId run) rid run],
            replyText (str ''steered '' @ formatRunLabel E run None
                       @ str '' (run '' @ take 8 rid @ str '').''))"
    unfolding sendAction_resolved [OF assms(1-4)]
    by (simp add: Let_def assms(5) rid)
  have c4: "\<exists>post c. sendAction E handledPrefix False runs (target # rest) =
           ([GatewayAgent (dispatchParams E run msg) 10000, GatewayAgentWait rid 30000 32000]
            @ post, c)"
    unfolding sendAction_resolved [OF assms(1-4)]
    by (simp add: Let_def assms(5) rid split: sum.splits option.splits)
  have c5: "\<forall>w. callGatewayWait E rid = Inr w \<and> Option.bind w waitStatus = Some (str ''timeout'') \<longrightarrow>
           snd (sendAction E handledPrefix False runs (target # rest)) =
             replyText (hourglassSign @ str '' Subagent still running (run '' @ take 8 rid @ str '').'')"
    unfolding sendAction_resolved [OF assms(1-4)]
    by (simp add: Let_def assms(5) rid)
  have c6: "\<forall>w. callGatewayWait E rid = Inr w \<and> Option.bind w waitStatus = Some (str ''error'') \<longrightarrow>
           snd (sendAction E handledPrefix False runs (target # rest)) =
             replyText (warningSign @ str '' Subagent error: ''
                        @ nullish (Option.bind w waitError) (str ''unknown error'')
                        @ str '' (run '' @ take 8 rid @ str '').'')"
    unfolding sendAction_resolved [OF assms(1-4)]
    by (simp add: Let_def assms(5) rid)
  from c1 c2 c3 c4 c5 c6 show ?thesis
    by blast
qed

lemma steer_example:
  "handleSubagentsCommand exampleLive (exampleParams (str ''/steer 1 go  north'')) True =
     sendAction exampleLive (str ''/steer'') True exampleRuns [str ''1'', str ''go'', str ''north'']"
  "trim (join (str '' '') [str ''go'', str ''north'']) = str ''go north''"
  "(str ''go north'') \<noteq> []"
  "entry (resolveSubagentTarget exampleLive exampleRuns (Some (str ''1''))) = Some runScout2"
  "\<not> truthy_num (endedAt runScout2)"
  by code_simp+

theorem steer_ordering_witness:
  "fst (handleSubagentsCommand exampleLive (exampleParams (str ''/steer 1 go  north'')) True) =
     [MarkSubagentRunForSteerRestart (str ''run-bbbb-2''),
      AbortEmbeddedPiRun (str ''sess-b''),
      ClearSessionQueues [Some (str ''agent:main:subagent:b''), Some (str ''sess-b'')],
      LogVerbose (str ''subagents steer: cleared followups=1 lane=0 keys=agent:main:subagent:b,sess-b''),
      GatewayAgent
        \<lparr>message = str ''go north'', agentSessionKey = str ''agent:main:subagent:b'',
         idempotencyKey = str ''0b1f6c1e-idempotency'', deliver = False, channel = str ''webchat'',
         lane = str ''subagent''\<rparr> 10000,
      ReplaceSubagentRunAfterSteer (str ''run-bbbb-2'') (str ''run-eeee-5-next'') runScout2]"
  unfolding steer_example(1) steer_ordering [OF steer_example(2-5)]
  by code_simp

lemma send_example:
  "handleSubagentsCommand exampleLive (exampleParams (str ''/subagents send scout2 hello there'')) True =
     sendAction exampleLive (str ''/subagents'') False exampleRuns [str ''scout2'', str ''hello'', str ''there'']"
  "trim (join (str '' '') [str ''hello'', str ''there'']) = str ''hello there''"
  "(str ''hello there'') \<noteq> []"
  "entry (resolveSubagentTarget exampleLive exampleRuns (Some (str ''scout2''))) = Some runScout2"
  "\<not> truthy_num (endedAt runScout2)"
  "callGatewayAgent exampleLive (dispatchParams exampleLive runScout2 (str ''hello there'')) =
     Inr (Some (str ''run-eeee-5-next''))"
  "callGatewayWait exampleLive (dispatchedRunId (randomUUID exampleLive) (Some (str ''run-eeee-5-next''))) =
     Inr (Some \<lparr>waitStatus = Some (str ''done''), waitError = None\<rparr>)"
  "waitStatus \<lparr>waitStatus = Some (str ''done''), waitError = None\<rparr> = Some (str ''done'')"
  by code_simp+

theorem send_round_trip_witness:
  "handleSubagentsCommand exampleLive (exampleParams (str ''/subagents send scout2 hello there'')) True =
     ([GatewayAgent
         \<lparr>message = str ''hello there'', agentSessionKey = str ''agent:main:subagent:b'',
          idempotencyKey = str ''0b1f6c1e-idempotency'', deliver = False, channel = str ''webchat'',
          lane = str ''subagent''\<rparr> 10000,
       GatewayAgentWait (str ''run-eeee-5-next'') 30000 32000,
       GatewayChatHistory (str ''agent:main:subagent:b'') 50],
      Returned (Some \<lparr>shouldContinue = False, reply = Some (str ''On it.'')\<rparr>))"
  unfolding send_example(1) send_round_trip [OF send_example(2-8)]
  by code_simp

text \<open>
  The claim as stated has the reply be the most recent assistant utterance of the fetched
  history. In the example the history ends with a user message after the assistant's
  answer "On it.": the dispatch is answered, the wait returns \<^verbatim>\<open>done\<close>, the fetch returns,
  and the reply is the acknowledgment, not that utterance.
\<close>

theorem send_round_trip_last_message_counterexample:
  "callGatewayWait exampleThanks (str ''run-eeee-5-next'') =
     Inr (Some \<lparr>waitStatus = Some (str ''done''), waitError = None\<rparr>) \<and>
   callGatewayHistory exampleThanks (str ''agent:main:subagent:b'') 50 = Inr (Some thanksHistory) \<and>
   mostRecentAssistantUtterance_spec exampleThanks
     (stripToolMessages exampleThanks thanksHistory) = Some (str ''On it.'') \<and>
   handleSubagentsCommand exampleThanks (exampleParams (str ''/subagents send scout2 thanks'')) True =
     ([GatewayAgent
         \<lparr>message = str ''thanks'', agentSessionKey = str ''agent:main:subagent:b'',
          idempotencyKey = str ''0b1f6c1e-idempotency'', deliver = False,
          channel = str ''webchat'', lane = str ''subagent''\<rparr> 10000,
       GatewayAgentWait (str ''run-eeee-5-next'') 30000 32000,
       GatewayChatHistory (str ''agent:main:subagent:b'') 50],
      Returned (Some \<lparr>shouldContinue = False,
        reply = Some (checkSign @ str '' Sent to Scout2 (run run-eeee).'')\<rparr>))"
  by code_simp

lemma steer_example_no_id:
  "handleSubagentsCommand exampleRegistry
       (exampleParams (str ''/steer 1 go  north'')) True =
     sendAction exampleRegistry (str ''/steer'') True
       exampleRuns [str ''1'', str ''go'', str ''north'']"
  "entry (resolveSubagentTarget exampleRegistry
       exampleRuns (Some (str ''1''))) = Some runScout2"
  "callGatewayAgent exampleRegistry
     (dispatchParams exampleRegistry
        runScout2 (str ''go north'')) = Inr None"
  "(str ''0b1f6c1e-idempotency'') =
     (case None of None \<Rightarrow> randomUUID exampleRegistry
      | Some r \<Rightarrow> if r = [] then randomUUID exampleRegistry
                  else r)"
  "callGatewayAgent exampleLive (dispatchParams exampleLive runScout2 (str ''go north'')) =
     Inr (Some (str ''run-eeee-5-next''))"
  "(str ''run-eeee-5-next'') =
     (case Some (str ''run-eeee-5-next'') of None \<Rightarrow> randomUUID exampleLive
      | Some r \<Rightarrow> if r = [] then randomUUID exampleLive else r)"
  "formatRunLabel exampleLive runScout2 None = str ''Scout2''"
  "formatRunLabel exampleRegistry runScout2 None
     = str ''Scout2''"
  "str ''steered '' @ str ''Scout2'' @ str '' (run '' @ take 8 (str ''run-eeee-5-next'') @ str '').'' =
   str ''steered Scout2 (run run-eeee).''"
  "str ''steered '' @ str ''Scout2'' @ str '' (run '' @ take 8 (str ''0b1f6c1e-idempotency'') @ str '').'' =
   str ''steered Scout2 (run 0b1f6c1e).''"
  by code_simp+

theorem dispatch_run_id_witness:
  "snd (handleSubagentsCommand exampleLive (exampleParams (str ''/steer 1 go  north'')) True) =
     Returned (Some \<lparr>shouldContinue = False, reply = Some (str ''steered Scout2 (run run-eeee).'')\<rparr>) \<and>
   snd (handleSubagentsCommand exampleRegistry
          (exampleParams (str ''/steer 1 go  north'')) True) =
     Returned (Some \<lparr>shouldContinue = False, reply = Some (str ''steered Scout2 (run 0b1f6c1e).'')\<rparr>)"
proof -
  have "\<exists>pre. sendAction exampleLive (str ''/steer'') True exampleRuns [str ''1'', str ''go'', str ''north''] =
      (pre @ [GatewayAgent (dispatchParams exampleLive runScout2 (str ''go north'')) 10000,
              ReplaceSubagentRunAfterSteer (runId runScout2) (str ''run-eeee-5-next'') runScout2],
       replyText (str ''steered '' @ formatRunLabel exampleLive runScout2 None
                  @ str '' (run '' @ take 8 (str ''run-eeee-5-next'') @ str '').''))"
    using dispatch_run_id [OF steer_example(2-5) steer_example_no_id(5,6), of "(str ''/steer'')"]
    by blast
  then have a: "snd (handleSubagentsCommand exampleLive (exampleParams (str ''/steer 1 go  north'')) True) =
     Returned (Some \<lparr>shouldContinue = False, reply = Some (str ''steered Scout2 (run run-eeee).'')\<rparr>)"
    unfolding steer_example(1) by (auto simp: replyText_def steer_example_no_id(7,9))
  have "\<exists>pre. sendAction exampleRegistry
          (str ''/steer'') True exampleRuns [str ''1'', str ''go'', str ''north''] =
      (pre @ [GatewayAgent (dispatchParams exampleRegistry
                runScout2 (str ''go north'')) 10000,
              ReplaceSubagentRunAfterSteer (runId runScout2) (str ''0b1f6c1e-idempotency'') runScout2],
       replyText (str ''steered '' @ formatRunLabel
                    exampleRegistry runScout2 None
                  @ str '' (run '' @ take 8 (str ''0b1f6c1e-idempotency'') @ str '').''))"
    using dispatch_run_id [OF steer_example(2,3) steer_example_no_id(2) steer_example(5)
        steer_example_no_id(3,4), of "(str ''/steer'')"]
    by blast
  then have b: "snd (handleSubagentsCommand exampleRegistry
          (exampleParams (str ''/steer 1 go  north'')) True) =
     Returned (Some \<lparr>shouldContinue = False, reply = Some (str ''steered Scout2 (run 0b1f6c1e).'')\<rparr>)"
    unfolding steer_example_no_id(1) by (auto simp: replyText_def steer_example_no_id(8,10))
  from a b show ?thesis
    by simp
qed

section \<open>The token last on an empty snapshot\<close>

lemma unresolved_unknown:
  "unresolvedReply \<lparr>entry = None, error = None\<rparr> = replyText (warningSign @ str '' Unknown subagent.'')"
  by (simp add: unresolvedReply_def nullish_def str_append)

text \<open>
  C9. When sorting the empty snapshot gives the empty list, the token \<^verbatim>\<open>last\<close> resolves on
  the empty snapshot to a resolution with neither a run nor an error, and stop, info, log
  and send (and steer) then reply with the generic "Unknown subagent." and issue no call. For every other token, and
  for \<^verbatim>\<open>last\<close> on a snapshot whose sorted list is not empty, the resolution carries
  either a run and no error, or no run and an error string that is not empty.
\<close>

theorem last_on_empty_snapshot:
  assumes "sortSubagentRuns E [] = []"
  shows "resolveSubagentTarget E [] (Some (str ''last'')) = \<lparr>entry = None, error = None\<rparr>
     \<and> stopAction E handledPrefix requesterKey [] (str ''last'' # rest) =
         ([], replyText (warningSign @ str '' Unknown subagent.''))
     \<and> infoAction E [] (str ''last'' # rest) = ([], replyText (warningSign @ str '' Unknown subagent.''))
     \<and> logAction E [] (str ''last'' # rest) = ([], replyText (warningSign @ str '' Unknown subagent.''))
     \<and> (trim (join (str '' '') rest) \<noteq> [] \<longrightarrow>
          sendAction E handledPrefix steerRequested [] (str ''last'' # rest) =
            ([], replyText (warningSign @ str '' Unknown subagent.'')))
     \<and> (\<forall>runs token.
          (map_option trim token = Some (str ''last'') \<longrightarrow> sortSubagentRuns E runs \<noteq> []) \<longrightarrow>
          (\<exists>r. resolveSubagentTarget E runs token = \<lparr>entry = Some r, error = None\<rparr>) \<or>
          (\<exists>m. m \<noteq> [] \<and> resolveSubagentTarget E runs token = \<lparr>entry = None, error = Some m\<rparr>))"
proof -
  have t: "trim (str ''last'') = str ''last''"
    by code_simp
  have r: "resolveSubagentTarget E [] (Some (str ''last'')) = \<lparr>entry = None, error = None\<rparr>"
    using assms by (simp add: resolve_last [OF t] found_def at_index_def)
  have s: "stopAction E handledPrefix requesterKey [] (str ''last'' # rest) =
         ([], replyText (warningSign @ str '' Unknown subagent.''))"
    by (simp add: stopAction_def r unresolved_unknown)
  have i: "infoAction E [] (str ''last'' # rest) = ([], replyText (warningSign @ str '' Unknown subagent.''))"
    by (simp add: infoAction_def r unresolved_unknown)
  have l: "logAction E [] (str ''last'' # rest) = ([], replyText (warningSign @ str '' Unknown subagent.''))"
    by (simp add: logAction_def r unresolved_unknown)
  have d: "trim (join (str '' '') rest) \<noteq> [] \<longrightarrow>
          sendAction E handledPrefix steerRequested [] (str ''last'' # rest) =
            ([], replyText (warningSign @ str '' Unknown subagent.''))"
    by (simp add: sendAction_def r unresolved_unknown)
  from r s i l d resolve_one_of show ?thesis
    by blast
qed

lemma last_examples:
  "handleSubagentsCommand exampleEnv (exampleParams (str ''/subagents info last'')) True =
     infoAction exampleEnv [] [str ''last'']"
  "handleSubagentsCommand exampleEnv (exampleParams (str ''/tell last hello'')) True =
     sendAction exampleEnv (str ''/tell'') True [] [str ''last'', str ''hello'']"
  "trim (join (str '' '') [str ''hello'']) \<noteq> []"
  "map_option trim (Some (str ''scout'')) \<noteq> Some (str ''last'')"
  "entry (resolveSubagentTarget exampleEnv exampleRuns (Some (str ''scout''))) = Some runScout"
  by code_simp+

theorem last_on_empty_snapshot_witness:
  "handleSubagentsCommand exampleEnv (exampleParams (str ''/subagents info last'')) True =
     ([], replyText (warningSign @ str '' Unknown subagent.'')) \<and>
   handleSubagentsCommand exampleEnv (exampleParams (str ''/tell last hello'')) True =
     ([], replyText (warningSign @ str '' Unknown subagent.'')) \<and>
   resolveSubagentTarget exampleEnv exampleRuns (Some (str ''scout'')) =
     \<lparr>entry = Some runScout, error = None\<rparr>"
proof -
  note fact = last_on_empty_snapshot [OF sort_spec_empty]
  have a: "handleSubagentsCommand exampleEnv (exampleParams (str ''/subagents info last'')) True =
     ([], replyText (warningSign @ str '' Unknown subagent.''))"
    unfolding last_examples(1)
    using fact [of "(str ''/subagents'')" "(str ''agent:main:main'')" "[]" False] by blast
  have b: "handleSubagentsCommand exampleEnv (exampleParams (str ''/tell last hello'')) True =
     ([], replyText (warningSign @ str '' Unknown subagent.''))"
    unfolding last_examples(2)
    using fact [of "(str ''/tell'')" _ "[str ''hello'']" True] last_examples(3) by blast
  have "(\<exists>r. resolveSubagentTarget exampleEnv exampleRuns (Some (str ''scout'')) =
             \<lparr>entry = Some r, error = None\<rparr>) \<or>
        (\<exists>m. m \<noteq> [] \<and> resolveSubagentTarget exampleEnv exampleRuns (Some (str ''scout'')) =
             \<lparr>entry = None, error = Some m\<rparr>)"
    using fact [of "(str ''/subagents'')" "(str ''agent:main:main'')" "[]" False] last_examples(4) by blast
  with last_examples(5) have c: "resolveSubagentTarget exampleEnv exampleRuns (Some (str ''scout'')) =
     \<lparr>entry = Some runScout, error = None\<rparr>"
    by auto
  from a b c show ?thesis
    by simp
qed

section \<open>The history limit of log\<close>

lemma logLimit_numeric_target:
  "all_digits target \<Longrightarrow> logLimit (target # args) = min 200 (max 1 (parseInt target))"
  by (simp add: logLimit_def)

lemma logLimit_other_target:
  "\<not> all_digits target \<Longrightarrow>
   logLimit (target # args) =
     (case find all_digits args of
        None \<Rightarrow> 20
      | Some limitToken \<Rightarrow> min 200 (max 1 (parseInt limitToken)))"
  by (simp add: logLimit_def)

lemma logLimit_range: "1 \<le> logLimit restTokens \<and> logLimit restTokens \<le> 200"
  by (simp add: logLimit_def split: option.splits)

text \<open>
  C7. The limit of the history fetch is the first all-digit token among all the tokens
  after the verb, the target included: with the numeric target \<^verbatim>\<open>1\<close> the command
  \<^verbatim>\<open>/subagents log 1 50\<close> fetches 1 message, not 50, and \<^verbatim>\<open>/subagents log 2\<close> fetches 2, not
  the default 20. A target that is not all digits leaves the limit to the arguments
  after it.
\<close>

theorem log_limit_reads_target:
  "fst (handleSubagentsCommand exampleLive (exampleParams (str ''/subagents log 1 50'')) True) =
     [GatewayChatHistory (str ''agent:main:subagent:b'') 1] \<and>
   fst (handleSubagentsCommand exampleLive (exampleParams (str ''/subagents log 2'')) True) =
     [GatewayChatHistory (str ''agent:main:subagent:a'') 2] \<and>
   fst (handleSubagentsCommand exampleLive (exampleParams (str ''/subagents log scout2 50'')) True) =
     [GatewayChatHistory (str ''agent:main:subagent:b'') 50] \<and>
   fst (handleSubagentsCommand exampleLive (exampleParams (str ''/subagents log scout2'')) True) =
     [GatewayChatHistory (str ''agent:main:subagent:b'') 20] \<and>
   logLimit [str ''1'', str ''50''] = 1 \<and> logLimit [str ''2''] = 2"
  by code_simp

end
